theory Spec2Isabelle
  imports Main
begin

section \<open>Go values: errors and formatting\<close>

text \<open>
  The three packages of cloudrun-local (\<open>config\<close>, \<open>auth\<close>/\<open>secrets\<close>, \<open>env\<close>) are
  embedded as HOL functions. Everything the Go code obtains from outside itself (the
  file system, the process environment, the random source, the network, the JSON
  decoder and the OAuth2 helpers) is a field of a \<open>platform\<close> record or of the
  \<open>world\<close> state that the functions pass along, so that every theorem below holds for
  every such environment. What the code computes with the standard library alone
  (\<open>base64\<close>, \<open>filepath.Join\<close>, \<open>json.Marshal\<close>, \<open>strings.Split\<close>) is embedded too.

  A Go \<open>error\<close> is a value with a message. \<open>errorString\<close> is what \<open>errors.New\<close> and a
  \<open>fmt.Errorf\<close> without \<open>%w\<close> build, \<open>wrapError\<close> what \<open>fmt.Errorf\<close> with \<open>%w\<close> builds
  (the formatted message and the wrapped cause), \<open>PathError\<close> what the \<open>os\<close> package
  returns (operation, path, cause) and \<open>CorruptInputError\<close> what the base64 decoder
  returns (the offset of the offending byte), \<open>SyntaxError\<close> what the JSON scanner
  returns (its message). \<open>nilDereference\<close> stands for the run-time panic of reading a
  field through a nil pointer.
\<close>

datatype errno = ENOENT | EACCES | ENOSPC

fun errno_text :: "errno \<Rightarrow> string" where
  "errno_text ENOENT = ''no such file or directory''"
| "errno_text EACCES = ''permission denied''"
| "errno_text ENOSPC = ''no space left on device''"

datatype error =
    errorString string
  | wrapError string error
  | PathError string string errno
  | CorruptInputError nat
  | SyntaxError string
  | nilDereference

definition digit_char :: "nat \<Rightarrow> char" where
  "digit_char d = ''0123456789'' ! d"

function utoa :: "nat \<Rightarrow> string" where
  "utoa n = (if n < 10 then [digit_char n] else utoa (n div 10) @ [digit_char (n mod 10)])"
  by pat_completeness auto
termination
  by (relation "measure (\<lambda>n. n)") auto

declare utoa.simps [simp del]

definition Itoa :: "int \<Rightarrow> string" where
  "Itoa i = (if i < 0 then CHR ''-'' # utoa (nat (- i)) else utoa (nat i))"

fun Error :: "error \<Rightarrow> string" where
  "Error (errorString s) = s"
| "Error (wrapError s cause) = s"
| "Error (PathError operation path e) = operation @ '' '' @ path @ '': '' @ errno_text e"
| "Error (CorruptInputError n) = ''illegal base64 data at input byte '' @ utoa n"
| "Error (SyntaxError msg) = msg"
| "Error nilDereference = ''runtime error: invalid memory address or nil pointer dereference''"

text \<open>\<open>fmt.Errorf(prefix + "%w", err)\<close>: the message ends with the cause's message.\<close>

definition Errorf_w :: "string \<Rightarrow> error \<Rightarrow> error" where
  "Errorf_w prefix err = wrapError (prefix @ Error err) err"

fun os_IsNotExist :: "error \<Rightarrow> bool" where
  "os_IsNotExist (PathError operation path ENOENT) = True"
| "os_IsNotExist e = False"

section \<open>The standard base64 encoding\<close>

text \<open>
  \<open>base64.StdEncoding\<close> of the Go library: the alphabet \<open>A-Za-z0-9+/\<close>, padding with
  \<open>=\<close>, carriage returns and line feeds ignored by the decoder, no check of the unused
  trailing bits. A group of three bytes is the 24-bit number \<open>val\<close>; the shifts and
  masks of the Go code are written as division and remainder (\<open>val\<close> stays below
  \<open>2^24\<close>, so nothing wraps). \<open>decode\<close> follows \<open>decodeQuantum\<close>: \<open>dbuf\<close> holds the
  six-bit values read so far of the current group and \<open>si\<close> is the offset of the next
  input byte, which the error carries.
\<close>

definition encodeStd :: string where
  "encodeStd = ''ABCDEFGHIJKLMNOPQRSTUVWXYZabcdefghijklmnopqrstuvwxyz0123456789+/''"

fun index_of :: "char \<Rightarrow> string \<Rightarrow> nat option" where
  "index_of c [] = None"
| "index_of c (x # xs) = (if x = c then Some 0 else map_option Suc (index_of c xs))"

definition decodeMap :: "char \<Rightarrow> nat option" where
  "decodeMap c = index_of c encodeStd"

definition enc6 :: "nat \<Rightarrow> char" where
  "enc6 n = encodeStd ! n"

fun EncodeToString :: "string \<Rightarrow> string" where
  "EncodeToString (a # b # c # rest) =
     (let val = of_char a * 65536 + of_char b * 256 + of_char c
      in [enc6 (val div 262144 mod 64), enc6 (val div 4096 mod 64),
          enc6 (val div 64 mod 64), enc6 (val mod 64)]) @ EncodeToString rest"
| "EncodeToString [a, b] =
     (let val = of_char a * 65536 + of_char b * 256
      in [enc6 (val div 262144 mod 64), enc6 (val div 4096 mod 64),
          enc6 (val div 64 mod 64), CHR ''=''])"
| "EncodeToString [a] =
     (let val = of_char a * 65536
      in [enc6 (val div 262144 mod 64), enc6 (val div 4096 mod 64), CHR ''='', CHR ''=''])"
| "EncodeToString [] = []"

definition is_newline :: "char \<Rightarrow> bool" where
  "is_newline c = (c = CHR 0x0A \<or> c = CHR 0x0D)"

definition quantum_bytes :: "nat list \<Rightarrow> string" where
  "quantum_bytes dbuf =
     (let val = (dbuf ! 0) * 262144 + (dbuf ! 1) * 4096 + (dbuf ! 2) * 64 + (dbuf ! 3)
      in [char_of (val div 65536), char_of (val div 256), char_of val])"

text \<open>After the padding: only line breaks may follow; \<open>length dbuf - 1\<close> bytes come out.\<close>

definition pad_tail :: "nat list \<Rightarrow> string \<Rightarrow> nat \<Rightarrow> error + string" where
  "pad_tail dbuf cs si =
     (let rest = dropWhile is_newline cs
      in if rest = [] then Inr (take (length dbuf - 1) (quantum_bytes (dbuf @ [0, 0])))
         else Inl (CorruptInputError (si + (length cs - length rest))))"

text \<open>
  A \<open>=\<close> was read at offset \<open>si - 1\<close> with \<open>length dbuf\<close> values in the group: none or
  one value is an error, two values need a second \<open>=\<close>, three values need none.
\<close>

definition padding :: "nat list \<Rightarrow> string \<Rightarrow> nat \<Rightarrow> error + string" where
  "padding dbuf cs si =
     (if length dbuf < 2 then Inl (CorruptInputError (si - 1))
      else if length dbuf = 2 then
        (case dropWhile is_newline cs of
           [] \<Rightarrow> Inl (CorruptInputError (si + length cs))
         | c # cs' \<Rightarrow>
             (if c = CHR ''='' then pad_tail dbuf cs' (si + (length cs - length cs'))
              else Inl (CorruptInputError (si + (length cs - length cs') - 2))))
      else pad_tail dbuf cs si)"

fun decode :: "nat list \<Rightarrow> string \<Rightarrow> nat \<Rightarrow> error + string" where
  "decode dbuf [] si =
     (if dbuf = [] then Inr [] else Inl (CorruptInputError (si - length dbuf)))"
| "decode dbuf (c # cs) si =
     (case decodeMap c of
        Some out \<Rightarrow>
          (if length dbuf = 3 then
             (case decode [] cs (si + 1) of
                Inl e \<Rightarrow> Inl e
              | Inr later \<Rightarrow> Inr (quantum_bytes (dbuf @ [out]) @ later))
           else decode (dbuf @ [out]) cs (si + 1))
      | None \<Rightarrow>
          (if is_newline c then decode dbuf cs (si + 1)
           else if c = CHR ''='' then padding dbuf cs (si + 1)
           else Inl (CorruptInputError si)))"

definition DecodeString :: "string \<Rightarrow> error + string" where
  "DecodeString s = decode [] s 0"

section \<open>The library: paths and JSON\<close>

subsection \<open>filepath.Join and filepath.Clean (Unix)\<close>

text \<open>
  \<open>strings.Split\<close> with a separator of one byte, and \<open>strings.Join\<close> with the slash.
\<close>

fun Split :: "char \<Rightarrow> string \<Rightarrow> string list" where
  "Split sep [] = [[]]"
| "Split sep (x # xs) =
     (if x = sep then [] # Split sep xs
      else (case Split sep xs of [] \<Rightarrow> [[x]] | p # ps \<Rightarrow> (x # p) # ps))"

fun join_slash :: "string list \<Rightarrow> string" where
  "join_slash [] = []"
| "join_slash [x] = x"
| "join_slash (x # y # ys) = x @ ''/'' @ join_slash (y # ys)"

text \<open>
  \<open>filepath.Clean\<close> reads the path element by element: an empty element and \<open>.\<close> are
  dropped, \<open>..\<close> removes the last element kept (or, in a path that is not rooted and
  has none left, is kept itself in front), any other element is kept. The state is the
  number of leading \<open>..\<close> and the elements kept, the last one first.
\<close>

fun clean_element :: "bool \<Rightarrow> nat \<times> string list \<Rightarrow> string \<Rightarrow> nat \<times> string list" where
  "clean_element rooted (dotdot, kept) element =
     (if element = [] \<or> element = ''.'' then (dotdot, kept)
      else if element = ''..'' then
        (case kept of
           [] \<Rightarrow> (if rooted then (dotdot, []) else (Suc dotdot, []))
         | last_kept # others \<Rightarrow> (dotdot, others))
      else (dotdot, element # kept))"

definition filepath_Clean :: "string \<Rightarrow> string" where
  "filepath_Clean path =
     (if path = [] then ''.''
      else
        (let rooted = (hd path = CHR ''/'');
             state = foldl (clean_element rooted) (0, []) (Split CHR ''/'' path);
             out = (if rooted then ''/'' else []) @
                   join_slash (replicate (fst state) ''..'' @ rev (snd state))
         in if out = [] then ''.'' else out))"

fun filepath_Join :: "string list \<Rightarrow> string" where
  "filepath_Join [] = []"
| "filepath_Join (e # elem) =
     (if e = [] then filepath_Join elem else filepath_Clean (join_slash (e # elem)))"

subsection \<open>json.Marshal\<close>

text \<open>
  The values handed to \<open>json.Marshal\<close>: strings, slices, structs (fields in declaration
  order, under their JSON names) and \<open>json.RawMessage\<close>.
\<close>

datatype json =
    JString string
  | JArray "json list"
  | JObject "(string \<times> json) list"
  | RawMessage string

definition hex_digit :: "nat \<Rightarrow> char" where
  "hex_digit d = ''0123456789abcdef'' ! d"

text \<open>
  \<open>utf8.DecodeRuneInString\<close>, as far as the encoder needs it: the number of bytes of the
  well-formed UTF-8 sequence at the head of the string, or 0 when there is none.
\<close>

definition continuation :: "nat \<Rightarrow> bool" where
  "continuation b = (128 \<le> b \<and> b \<le> 191)"

definition second_byte_ok :: "nat \<Rightarrow> nat \<Rightarrow> bool" where
  "second_byte_ok b0 b1 =
     (if b0 = 224 then 160 \<le> b1 \<and> b1 \<le> 191
      else if b0 = 237 then 128 \<le> b1 \<and> b1 \<le> 159
      else if b0 = 240 then 144 \<le> b1 \<and> b1 \<le> 191
      else if b0 = 244 then 128 \<le> b1 \<and> b1 \<le> 143
      else continuation b1)"

definition utf8_size :: "nat list \<Rightarrow> nat" where
  "utf8_size bs =
     (case bs of
        [] \<Rightarrow> 0
      | b0 # r0 \<Rightarrow>
          (if b0 < 128 then 1
           else if b0 < 194 \<or> 244 < b0 then 0
           else
             (case r0 of
                [] \<Rightarrow> 0
              | b1 # r1 \<Rightarrow>
                  (if b0 < 224 then (if continuation b1 then 2 else 0)
                   else if second_byte_ok b0 b1 then
                     (case r1 of
                        [] \<Rightarrow> 0
                      | b2 # r2 \<Rightarrow>
                          (if continuation b2 then
                             (if b0 < 240 then 3
                              else
                                (case r2 of
                                   [] \<Rightarrow> 0
                                 | b3 # r3 \<Rightarrow> (if continuation b3 then 4 else 0)))
                           else 0))
                   else 0))))"

text \<open>
  \<open>appendString\<close> with \<open>escapeHTML\<close> set, as \<open>json.Marshal\<close> calls it (Go 1.22 and
  later, which the module needs for \<open>math/rand/v2\<close>): a quote and a backslash get a
  backslash, the control characters their short form or the form with four
  hexadecimal digits, and so do the less-than sign, the greater-than sign and the
  ampersand; a byte that starts no well-formed UTF-8 sequence becomes the escape of
  U+FFFD, and U+2028 and U+2029 are written as escapes.
\<close>

definition escape_ascii :: "char \<Rightarrow> string" where
  "escape_ascii c =
     (let b = (of_char c :: nat)
      in if b = 34 \<or> b = 92 then [CHR 0x5C, c]
         else if b = 8 then [CHR 0x5C, CHR ''b'']
         else if b = 12 then [CHR 0x5C, CHR ''f'']
         else if b = 10 then [CHR 0x5C, CHR ''n'']
         else if b = 13 then [CHR 0x5C, CHR ''r'']
         else if b = 9 then [CHR 0x5C, CHR ''t'']
         else if b < 32 \<or> b = 38 \<or> b = 60 \<or> b = 62 then
           [CHR 0x5C, CHR ''u'', CHR ''0'', CHR ''0'', hex_digit (b div 16), hex_digit (b mod 16)]
         else [c])"

definition line_separator :: "string \<Rightarrow> bool" where
  "line_separator src =
     (case src of
        c0 # c1 # c2 # rest \<Rightarrow>
          (of_char c0 :: nat) = 226 \<and> (of_char c1 :: nat) = 128 \<and>
          ((of_char c2 :: nat) = 168 \<or> (of_char c2 :: nat) = 169)
      | _ \<Rightarrow> False)"

function string_body :: "string \<Rightarrow> string" where
  "string_body [] = []"
| "string_body (c # cs) =
     (if (of_char c :: nat) < 128 then escape_ascii c @ string_body cs
      else
        (let n = utf8_size (map of_char (c # cs))
         in if n = 0 then [CHR 0x5C] @ ''ufffd'' @ string_body cs
            else if line_separator (c # cs) then
              [CHR 0x5C] @ ''u202'' @ [hex_digit ((of_char (cs ! 1) :: nat) mod 16)] @
              string_body (drop 2 cs)
            else c # take (n - 1) cs @ string_body (drop (n - 1) cs)))"
  by pat_completeness auto
termination
  by (relation "measure length") auto

definition appendString :: "string \<Rightarrow> string" where
  "appendString src = [CHR 0x22] @ string_body src @ [CHR 0x22]"

text \<open>
  The scanner of \<open>encoding/json\<close> (\<open>scanner.go\<close>), which \<open>compact\<close> runs over a
  \<open>RawMessage\<close>: the step to take on the next byte, the stack of what is being
  parsed (innermost first), whether the top-level value has ended, and the error met.
  Of the codes a step returns, all below \<open>scanSkipSpace\<close> are one here
  (\<open>scanContinue\<close>): \<open>compact\<close> tells no more apart.
\<close>

datatype scan_state =
    stateBeginValueOrEmpty | stateBeginValue | stateBeginStringOrEmpty | stateBeginString
  | stateEndValue | stateEndTop
  | stateInString | stateInStringEsc | stateInStringEscU | stateInStringEscU1
  | stateInStringEscU12 | stateInStringEscU123
  | stateNeg | state1 | state0 | stateDot | stateDot0 | stateE | stateESign | stateE0
  | stateT | stateTr | stateTru | stateF | stateFa | stateFal | stateFals
  | stateN | stateNu | stateNul
  | stateError

datatype parse_state = parseObjectKey | parseObjectValue | parseArrayValue

datatype scan_code = scanContinue | scanSkipSpace | scanEnd | scanError

record scanner =
  sc_step :: scan_state
  sc_parseState :: "parse_state list"
  sc_endTop :: bool
  sc_err :: "error option"

definition scanner_reset :: scanner where
  "scanner_reset = \<lparr>sc_step = stateBeginValue, sc_parseState = [], sc_endTop = False, sc_err = None\<rparr>"

definition isSpace :: "char \<Rightarrow> bool" where
  "isSpace c = (c = CHR '' '' \<or> c = CHR 0x09 \<or> c = CHR 0x0D \<or> c = CHR 0x0A)"

definition is_digit :: "char \<Rightarrow> bool" where
  "is_digit c = (48 \<le> (of_char c :: nat) \<and> (of_char c :: nat) \<le> 57)"

definition is_hex :: "char \<Rightarrow> bool" where
  "is_hex c = (is_digit c \<or> (97 \<le> (of_char c :: nat) \<and> (of_char c :: nat) \<le> 102) \<or>
               (65 \<le> (of_char c :: nat) \<and> (of_char c :: nat) \<le> 70))"

text \<open>
  \<open>quoteChar\<close>: the byte as the message of a syntax error shows it (\<open>strconv.Quote\<close> of
  the code point with that number, in single quotes).
\<close>

definition quoteChar :: "char \<Rightarrow> string" where
  "quoteChar c =
     (let b = (of_char c :: nat)
      in if b = 39 then [CHR 0x27, CHR 0x5C, CHR 0x27, CHR 0x27]
         else if b = 34 then [CHR 0x27, CHR 0x22, CHR 0x27]
         else [CHR 0x27] @
              (if b = 92 then [CHR 0x5C, CHR 0x5C]
               else if 32 \<le> b \<and> b \<le> 126 then [c]
               else if 161 \<le> b \<and> b \<noteq> 173 then [char_of (192 + b div 64), char_of (128 + b mod 64)]
               else if b = 7 then [CHR 0x5C, CHR ''a'']
               else if b = 8 then [CHR 0x5C, CHR ''b'']
               else if b = 12 then [CHR 0x5C, CHR ''f'']
               else if b = 10 then [CHR 0x5C, CHR ''n'']
               else if b = 13 then [CHR 0x5C, CHR ''r'']
               else if b = 9 then [CHR 0x5C, CHR ''t'']
               else if b = 11 then [CHR 0x5C, CHR ''v'']
               else if b < 32 \<or> b = 127 then
                 [CHR 0x5C, CHR ''x'', hex_digit (b div 16), hex_digit (b mod 16)]
               else [CHR 0x5C, CHR ''u'', CHR ''0'', CHR ''0'', hex_digit (b div 16),
                     hex_digit (b mod 16)])
              @ [CHR 0x27])"

definition scan_fail :: "scanner \<Rightarrow> char \<Rightarrow> string \<Rightarrow> scanner \<times> scan_code" where
  "scan_fail s c what =
     (s\<lparr>sc_step := stateError,
        sc_err := Some (SyntaxError (''invalid character '' @ quoteChar c @ '' '' @ what))\<rparr>,
      scanError)"

definition goto :: "scanner \<Rightarrow> scan_state \<Rightarrow> scanner \<times> scan_code" where
  "goto s st = (s\<lparr>sc_step := st\<rparr>, scanContinue)"

definition pushParseState :: "scanner \<Rightarrow> char \<Rightarrow> parse_state \<Rightarrow> scanner \<times> scan_code" where
  "pushParseState s c newParseState =
     (let s' = s\<lparr>sc_parseState := newParseState # sc_parseState s\<rparr>
      in if length (sc_parseState s') \<le> 10000 then (s', scanContinue)
         else scan_fail s' c ''exceeded max depth'')"

definition popParseState :: "scanner \<Rightarrow> scanner" where
  "popParseState s =
     (let rest = tl (sc_parseState s)
      in if rest = [] then s\<lparr>sc_parseState := rest, sc_step := stateEndTop, sc_endTop := True\<rparr>
         else s\<lparr>sc_parseState := rest, sc_step := stateEndValue\<rparr>)"

definition do_stateEndTop :: "scanner \<Rightarrow> char \<Rightarrow> scanner \<times> scan_code" where
  "do_stateEndTop s c =
     (if isSpace c then (s, scanEnd)
      else (fst (scan_fail s c ''after top-level value''), scanEnd))"

definition do_stateEndValue :: "scanner \<Rightarrow> char \<Rightarrow> scanner \<times> scan_code" where
  "do_stateEndValue s c =
     (case sc_parseState s of
        [] \<Rightarrow> do_stateEndTop (s\<lparr>sc_step := stateEndTop, sc_endTop := True\<rparr>) c
      | ps # rest \<Rightarrow>
          (if isSpace c then (s\<lparr>sc_step := stateEndValue\<rparr>, scanSkipSpace)
           else
             (case ps of
                parseObjectKey \<Rightarrow>
                  (if c = CHR '':'' then
                     (s\<lparr>sc_parseState := parseObjectValue # rest, sc_step := stateBeginValue\<rparr>,
                      scanContinue)
                   else scan_fail s c ''after object key'')
              | parseObjectValue \<Rightarrow>
                  (if c = CHR '','' then
                     (s\<lparr>sc_parseState := parseObjectKey # rest, sc_step := stateBeginString\<rparr>,
                      scanContinue)
                   else if c = CHR ''}'' then (popParseState s, scanContinue)
                   else scan_fail s c ''after object key:value pair'')
              | parseArrayValue \<Rightarrow>
                  (if c = CHR '','' then goto s stateBeginValue
                   else if c = CHR '']'' then (popParseState s, scanContinue)
                   else scan_fail s c ''after array element''))))"

definition do_stateBeginValue :: "scanner \<Rightarrow> char \<Rightarrow> scanner \<times> scan_code" where
  "do_stateBeginValue s c =
     (if isSpace c then (s, scanSkipSpace)
      else if c = CHR ''{'' then
        pushParseState (s\<lparr>sc_step := stateBeginStringOrEmpty\<rparr>) c parseObjectKey
      else if c = CHR ''['' then
        pushParseState (s\<lparr>sc_step := stateBeginValueOrEmpty\<rparr>) c parseArrayValue
      else if c = CHR 0x22 then goto s stateInString
      else if c = CHR ''-'' then goto s stateNeg
      else if c = CHR ''0'' then goto s state0
      else if c = CHR ''t'' then goto s stateT
      else if c = CHR ''f'' then goto s stateF
      else if c = CHR ''n'' then goto s stateN
      else if is_digit c then goto s state1
      else scan_fail s c ''looking for beginning of value'')"

definition do_stateBeginString :: "scanner \<Rightarrow> char \<Rightarrow> scanner \<times> scan_code" where
  "do_stateBeginString s c =
     (if isSpace c then (s, scanSkipSpace)
      else if c = CHR 0x22 then goto s stateInString
      else scan_fail s c ''looking for beginning of object key string'')"

definition do_state0 :: "scanner \<Rightarrow> char \<Rightarrow> scanner \<times> scan_code" where
  "do_state0 s c =
     (if c = CHR ''.'' then goto s stateDot
      else if c = CHR ''e'' \<or> c = CHR ''E'' then goto s stateE
      else do_stateEndValue s c)"

definition do_stateESign :: "scanner \<Rightarrow> char \<Rightarrow> scanner \<times> scan_code" where
  "do_stateESign s c =
     (if is_digit c then goto s stateE0
      else scan_fail s c ''in exponent of numeric literal'')"

text \<open>One letter of \<open>true\<close>, \<open>false\<close> or \<open>null\<close>, and one digit of a \<open>u\<close> escape.\<close>

definition expect_letter ::
  "scanner \<Rightarrow> char \<Rightarrow> char \<Rightarrow> scan_state \<Rightarrow> string \<Rightarrow> scanner \<times> scan_code" where
  "expect_letter s c letter next literal =
     (if c = letter then goto s next
      else scan_fail s c (''in literal '' @ literal @ '' (expecting '' @
                          [CHR 0x27, letter, CHR 0x27] @ '')''))"

definition expect_hex :: "scanner \<Rightarrow> char \<Rightarrow> scan_state \<Rightarrow> scanner \<times> scan_code" where
  "expect_hex s c next =
     (if is_hex c then goto s next
      else scan_fail s c (''in '' @ [CHR 0x5C] @ ''u hexadecimal character escape''))"

definition scan_byte :: "scanner \<Rightarrow> char \<Rightarrow> scanner \<times> scan_code" where
  "scan_byte s c =
     (case sc_step s of
        stateBeginValueOrEmpty \<Rightarrow>
          (if isSpace c then (s, scanSkipSpace)
           else if c = CHR '']'' then do_stateEndValue s c
           else do_stateBeginValue s c)
      | stateBeginValue \<Rightarrow> do_stateBeginValue s c
      | stateBeginStringOrEmpty \<Rightarrow>
          (if isSpace c then (s, scanSkipSpace)
           else if c = CHR ''}'' then
             do_stateEndValue (s\<lparr>sc_parseState := parseObjectValue # tl (sc_parseState s)\<rparr>) c
           else do_stateBeginString s c)
      | stateBeginString \<Rightarrow> do_stateBeginString s c
      | stateEndValue \<Rightarrow> do_stateEndValue s c
      | stateEndTop \<Rightarrow> do_stateEndTop s c
      | stateInString \<Rightarrow>
          (if c = CHR 0x22 then goto s stateEndValue
           else if c = CHR 0x5C then goto s stateInStringEsc
           else if (of_char c :: nat) < 32 then scan_fail s c ''in string literal''
           else (s, scanContinue))
      | stateInStringEsc \<Rightarrow>
          (if c = CHR ''b'' \<or> c = CHR ''f'' \<or> c = CHR ''n'' \<or> c = CHR ''r'' \<or> c = CHR ''t'' \<or>
              c = CHR 0x5C \<or> c = CHR ''/'' \<or> c = CHR 0x22 then goto s stateInString
           else if c = CHR ''u'' then goto s stateInStringEscU
           else scan_fail s c ''in string escape code'')
      | stateInStringEscU \<Rightarrow> expect_hex s c stateInStringEscU1
      | stateInStringEscU1 \<Rightarrow> expect_hex s c stateInStringEscU12
      | stateInStringEscU12 \<Rightarrow> expect_hex s c stateInStringEscU123
      | stateInStringEscU123 \<Rightarrow> expect_hex s c stateInString
      | stateNeg \<Rightarrow>
          (if c = CHR ''0'' then goto s state0
           else if is_digit c then goto s state1
           else scan_fail s c ''in numeric literal'')
      | state1 \<Rightarrow> (if is_digit c then goto s state1 else do_state0 s c)
      | state0 \<Rightarrow> do_state0 s c
      | stateDot \<Rightarrow>
          (if is_digit c then goto s stateDot0
           else scan_fail s c ''after decimal point in numeric literal'')
      | stateDot0 \<Rightarrow>
          (if is_digit c then (s, scanContinue)
           else if c = CHR ''e'' \<or> c = CHR ''E'' then goto s stateE
           else do_stateEndValue s c)
      | stateE \<Rightarrow>
          (if c = CHR ''+'' \<or> c = CHR ''-'' then goto s stateESign else do_stateESign s c)
      | stateESign \<Rightarrow> do_stateESign s c
      | stateE0 \<Rightarrow> (if is_digit c then (s, scanContinue) else do_stateEndValue s c)
      | stateT \<Rightarrow> expect_letter s c CHR ''r'' stateTr ''true''
      | stateTr \<Rightarrow> expect_letter s c CHR ''u'' stateTru ''true''
      | stateTru \<Rightarrow> expect_letter s c CHR ''e'' stateEndValue ''true''
      | stateF \<Rightarrow> expect_letter s c CHR ''a'' stateFa ''false''
      | stateFa \<Rightarrow> expect_letter s c CHR ''l'' stateFal ''false''
      | stateFal \<Rightarrow> expect_letter s c CHR ''s'' stateFals ''false''
      | stateFals \<Rightarrow> expect_letter s c CHR ''e'' stateEndValue ''false''
      | stateN \<Rightarrow> expect_letter s c CHR ''u'' stateNu ''null''
      | stateNu \<Rightarrow> expect_letter s c CHR ''l'' stateNul ''null''
      | stateNul \<Rightarrow> expect_letter s c CHR ''l'' stateEndValue ''null''
      | stateError \<Rightarrow> (s, scanError))"

text \<open>\<open>scanner.eof\<close>: the error at the end of the input, if there is one.\<close>

definition scanner_eof :: "scanner \<Rightarrow> error option" where
  "scanner_eof s =
     (case sc_err s of
        Some e \<Rightarrow> Some e
      | None \<Rightarrow>
          (if sc_endTop s then None
           else
             (let s' = fst (scan_byte s CHR '' '')
              in if sc_endTop s' then None
                 else (case sc_err s' of
                         Some e \<Rightarrow> Some e
                       | None \<Rightarrow> Some (SyntaxError ''unexpected end of JSON input'')))))"

text \<open>
  \<open>compact\<close> with \<open>escape\<close> set: every byte goes through the scanner; the less-than
  sign, the greater-than sign, the ampersand and the UTF-8 of U+2028 and U+2029 are
  replaced by their escapes, a byte that the scanner skips (white space outside
  strings) is dropped, any other byte is copied. \<open>covered\<close> counts the bytes that
  follow an escape of U+2028 or U+2029 and belong to it. A syntax error gives no
  output (after a step that returns \<open>scanError\<close> the scanner always holds the error).
\<close>

definition html_byte :: "char \<Rightarrow> bool" where
  "html_byte c = (c = CHR ''<'' \<or> c = CHR ''>'' \<or> c = CHR ''&'')"

fun compact_from :: "scanner \<Rightarrow> nat \<Rightarrow> string \<Rightarrow> error + string" where
  "compact_from s covered [] =
     (case scanner_eof s of Some e \<Rightarrow> Inl e | None \<Rightarrow> Inr [])"
| "compact_from s covered (c # cs) =
     (case scan_byte s c of
        (s', v) \<Rightarrow>
          (if v = scanError then
             (case scanner_eof s' of
                Some e \<Rightarrow> Inl e
              | None \<Rightarrow> Inl (SyntaxError ''unexpected end of JSON input''))
           else
             (case compact_from s'
                     (if line_separator (c # cs) then 2 else covered - 1) cs of
                Inl e \<Rightarrow> Inl e
              | Inr later \<Rightarrow>
                  Inr ((if html_byte c then
                          [CHR 0x5C, CHR ''u'', CHR ''0'', CHR ''0'',
                           hex_digit ((of_char c :: nat) div 16),
                           hex_digit ((of_char c :: nat) mod 16)]
                        else if line_separator (c # cs) then
                          [CHR 0x5C] @ ''u202'' @ [hex_digit ((of_char (cs ! 1) :: nat) mod 16)]
                        else if v = scanSkipSpace \<or> v = scanEnd \<or> 0 < covered then []
                        else [c])
                       @ later))))"

definition compact :: "string \<Rightarrow> error + string" where
  "compact src = compact_from scanner_reset 0 src"

text \<open>
  \<open>json.Marshal\<close> of the values above. A \<open>RawMessage\<close> is compacted, and a syntax
  error in it is the error of the whole call (a \<open>MarshalerError\<close>); nothing else can
  fail. A key is written as it is: the keys of the code need no escape.
\<close>

fun all_or_first_error :: "(error + string) list \<Rightarrow> error + string list" where
  "all_or_first_error [] = Inr []"
| "all_or_first_error (Inl e # rs) = Inl e"
| "all_or_first_error (Inr x # rs) =
     (case all_or_first_error rs of Inl e \<Rightarrow> Inl e | Inr xs \<Rightarrow> Inr (x # xs))"

fun commas :: "string list \<Rightarrow> string" where
  "commas [] = []"
| "commas [x] = x"
| "commas (x # y # ys) = x @ '','' @ commas (y # ys)"

fun json_Marshal :: "json \<Rightarrow> error + string" where
  "json_Marshal (JString s) = Inr (appendString s)"
| "json_Marshal (JArray xs) =
     (case all_or_first_error (map json_Marshal xs) of
        Inl e \<Rightarrow> Inl e
      | Inr ts \<Rightarrow> Inr (''['' @ commas ts @ '']''))"
| "json_Marshal (JObject fs) =
     (case all_or_first_error
             (map (\<lambda>kv. case json_Marshal (snd kv) of
                           Inl e \<Rightarrow> Inl e
                         | Inr t \<Rightarrow> Inr ([CHR 0x22] @ fst kv @ [CHR 0x22] @ '':'' @ t)) fs) of
        Inl e \<Rightarrow> Inl e
      | Inr ts \<Rightarrow> Inr (''{'' @ commas ts @ ''}''))"
| "json_Marshal (RawMessage b) =
     (case compact b of
        Inl e \<Rightarrow>
          Inl (wrapError (''json: error calling MarshalJSON for type json.RawMessage: '' @ Error e) e)
      | Inr t \<Rightarrow> Inr t)"

section \<open>The environment: platform and world\<close>

record http_request =
  Method :: string
  URL :: string
  Authorization :: string
  RequestBody :: string

record http_response =
  StatusCode :: int
  Body :: string

text \<open>
  How \<open>os.WriteFile\<close> ends on a path: it opens (creating or truncating) and then
  writes, so it can fail before the file is touched or after part of the data is
  written. The Go documentation of \<open>os.WriteFile\<close> says that a failure mid-operation
  can leave the file in a partially written state.
\<close>

datatype write_outcome = WriteOK | OpenFails errno | WriteFails errno nat

text \<open>
  What does not change during a run and what the Go code only calls:
  \<^item> \<open>Getenv\<close>, \<open>UserHomeDir\<close>, \<open>TempDir\<close>: \<open>os.Getenv\<close>, \<open>os.UserHomeDir\<close>, \<open>os.TempDir\<close>;
  \<^item> \<open>unreadable\<close>, \<open>write_fault\<close>, \<open>remove_fault\<close>: which existing files cannot be
    read, how a write to a path ends, and the error with which removing an existing
    file fails (a directory without write permission, a read-only file system), if any;
  \<^item> \<open>rand_source\<close>: the raw values behind \<open>rand.IntN\<close>, by draw number;
  \<^item> \<open>FindDefaultCredentials\<close>: the result of \<open>google.FindDefaultCredentials\<close>; when
    it succeeds, the result of \<open>TokenSource.Token()\<close> (the caller's own access token);
  \<^item> \<open>url_error\<close>: the error of \<open>http.NewRequestWithContext\<close> on a URL it cannot parse;
  \<^item> \<open>RoundTrip\<close>: the answer of \<open>http.DefaultClient.Do\<close>, by the number of requests
    sent before, so that the same request can be answered differently each time;
  \<^item> \<open>DecodePayloadData\<close>, \<open>DecodeAccessToken\<close>: \<open>json.Decoder.Decode\<close> of a response
    body into the struct of \<open>AccessSecretVersion\<close> (giving its \<open>Payload.Data\<close>) and of
    \<open>fetchImpersonatedAccessToken\<close> (giving its \<open>AccessToken\<close>); a missing field decodes
    to the empty string.
  Cancellation of the \<open>context.Context\<close> is not modelled apart from the errors that
  \<open>RoundTrip\<close> may return.
\<close>

record platform =
  Getenv :: "string \<Rightarrow> string"
  UserHomeDir :: "error + string"
  TempDir :: string
  unreadable :: "string \<Rightarrow> bool"
  write_fault :: "string \<Rightarrow> write_outcome"
  remove_fault :: "string \<Rightarrow> errno option"
  rand_source :: "nat \<Rightarrow> nat"
  FindDefaultCredentials :: "error + (error + string)"
  url_error :: "string \<Rightarrow> error option"
  RoundTrip :: "nat \<Rightarrow> http_request \<Rightarrow> error + http_response"
  DecodePayloadData :: "string \<Rightarrow> error + string"
  DecodeAccessToken :: "string \<Rightarrow> error + string"

text \<open>
  What changes: the regular files on disk (path to contents; permission bits are not
  tracked), the requests sent so far, and the number of random draws made.
\<close>

record world =
  files :: "string \<rightharpoonup> string"
  sent :: "http_request list"
  draws :: nat

definition os_ReadFile :: "platform \<Rightarrow> string \<Rightarrow> world \<Rightarrow> error + string" where
  "os_ReadFile P name w =
     (case files w name of
        None \<Rightarrow> Inl (PathError ''open'' name ENOENT)
      | Some b \<Rightarrow> (if unreadable P name then Inl (PathError ''open'' name EACCES) else Inr b))"

definition os_WriteFile :: "platform \<Rightarrow> string \<Rightarrow> string \<Rightarrow> world \<Rightarrow> error option \<times> world" where
  "os_WriteFile P name b w =
     (case write_fault P name of
        OpenFails e \<Rightarrow> (Some (PathError ''open'' name e), w)
      | WriteFails e n \<Rightarrow>
          (Some (PathError ''write'' name e), w\<lparr>files := (files w)(name \<mapsto> take n b)\<rparr>)
      | WriteOK \<Rightarrow> (None, w\<lparr>files := (files w)(name \<mapsto> b)\<rparr>))"

text \<open>
  \<open>os.Remove\<close>: a file that is not there cannot be removed; one that is there is
  removed unless the platform refuses, and then nothing changes.
\<close>

definition os_Remove :: "platform \<Rightarrow> string \<Rightarrow> world \<Rightarrow> error option \<times> world" where
  "os_Remove P name w =
     (case files w name of
        None \<Rightarrow> (Some (PathError ''remove'' name ENOENT), w)
      | Some b \<Rightarrow>
          (case remove_fault P name of
             Some e \<Rightarrow> (Some (PathError ''remove'' name e), w)
           | None \<Rightarrow> (None, w\<lparr>files := (files w)(name := None)\<rparr>)))"

text \<open>\<open>rand.IntN(n)\<close>: a value in \<open>[0, n)\<close>; one draw is used up.\<close>

definition rand_IntN :: "platform \<Rightarrow> nat \<Rightarrow> world \<Rightarrow> nat \<times> world" where
  "rand_IntN P n w = (rand_source P (draws w) mod n, w\<lparr>draws := Suc (draws w)\<rparr>)"

definition NewRequestWithContext ::
  "platform \<Rightarrow> string \<Rightarrow> string \<Rightarrow> string \<Rightarrow> error + http_request" where
  "NewRequestWithContext P method url body =
     (case url_error P url of
        Some err \<Rightarrow> Inl err
      | None \<Rightarrow> Inr \<lparr>Method = method, URL = url, Authorization = [], RequestBody = body\<rparr>)"

definition http_Do :: "platform \<Rightarrow> http_request \<Rightarrow> world \<Rightarrow> (error + http_response) \<times> world" where
  "http_Do P req w = (RoundTrip P (length (sent w)) req, w\<lparr>sent := sent w @ [req]\<rparr>)"

section \<open>Package secrets (internal/secrets/secrets.go, first part)\<close>

record Client =
  accessToken :: string
  projectID :: string

definition NewClient :: "string \<Rightarrow> string \<Rightarrow> Client" where
  "NewClient token project = \<lparr>accessToken = token, projectID = project\<rparr>"

definition AccessSecretVersion ::
  "platform \<Rightarrow> Client \<Rightarrow> string \<Rightarrow> string \<Rightarrow> world \<Rightarrow> (error + string) \<times> world" where
  "AccessSecretVersion P c secretName version w =
     (let secretPath = ''projects/'' @ projectID c @ ''/secrets/'' @ secretName @
                       ''/versions/'' @ version;
          url = ''https://secretmanager.googleapis.com/v1/'' @ secretPath @ '':access''
      in case NewRequestWithContext P ''GET'' url [] of
           Inl err \<Rightarrow> (Inl err, w)
         | Inr req \<Rightarrow>
             (case http_Do P (req\<lparr>Authorization := ''Bearer '' @ accessToken c\<rparr>) w of
                (Inl err, w') \<Rightarrow> (Inl err, w')
              | (Inr resp, w') \<Rightarrow>
                  (if StatusCode resp < 200 \<or> StatusCode resp > 299 then
                     (Inl (errorString (''expected 200 response status, received '' @
                                        Itoa (StatusCode resp))), w')
                   else
                     (case DecodePayloadData P (Body resp) of
                        Inl err \<Rightarrow> (Inl err, w')
                      | Inr payload \<Rightarrow>
                          (if payload = [] then
                             (Inl (errorString (''no value for secret '' @ secretPath)), w')
                           else
                             (case DecodeString payload of
                                Inl err \<Rightarrow> (Inl err, w')
                              | Inr decodedData \<Rightarrow> (Inr decodedData, w')))))))"

section \<open>Package auth (internal/secrets/secrets.go, second part)\<close>

record Credentials =
  AccessToken :: string
  CredsFile :: string

definition getGcloudConfigDir :: "platform \<Rightarrow> error + string" where
  "getGcloudConfigDir P =
     (let configDir = Getenv P ''CLOUDSDK_CONFIG''
      in if configDir = [] then
           (case UserHomeDir P of
              Inl err \<Rightarrow> Inl (Errorf_w ''get user home directory: '' err)
            | Inr home \<Rightarrow> Inr (filepath_Join [home, ''.config'', ''gcloud'']))
         else Inr configDir)"

definition applicationDefaultCredentials :: "platform \<Rightarrow> world \<Rightarrow> error + string" where
  "applicationDefaultCredentials P w =
     (case getGcloudConfigDir P of
        Inl err \<Rightarrow> Inl err
      | Inr configDir \<Rightarrow>
          (let path = filepath_Join [configDir, ''application_default_credentials.json'']
           in case os_ReadFile P path w of
                Inl err \<Rightarrow>
                  (if os_IsNotExist err then
                     Inl (errorString (''no application default credentials found. '' @
                       ''Please authenticate using '' @ [CHR 0x27] @
                       ''gcloud auth application-default login'' @ [CHR 0x27]))
                   else Inl (Errorf_w (''read application default credentials at '' @ path @ '': '')
                               err))
              | Inr b \<Rightarrow> Inr b))"

definition impersonation_url :: "string \<Rightarrow> string" where
  "impersonation_url serviceAccountEmail =
     ''https://iamcredentials.googleapis.com/v1/projects/-/serviceAccounts/'' @
     serviceAccountEmail @ '':generateAccessToken''"

definition fetchImpersonatedAccessToken ::
  "platform \<Rightarrow> string \<Rightarrow> world \<Rightarrow> (error + string) \<times> world" where
  "fetchImpersonatedAccessToken P serviceAccountEmail w =
     (case FindDefaultCredentials P of
        Inl err \<Rightarrow> (Inl (Errorf_w ''find default credentials: '' err), w)
      | Inr tokenSource \<Rightarrow>
          (case tokenSource of
             Inl err \<Rightarrow> (Inl (Errorf_w ''get access token: '' err), w)
           | Inr callerToken \<Rightarrow>
               (if callerToken = [] then (Inl (errorString ''got empty access token''), w)
                else
                  (case json_Marshal (JObject
                          [(''delegates'',
                              JArray [JString (''projects/-/serviceAccounts/'' @ serviceAccountEmail)]),
                           (''scope'',
                              JArray [JString ''https://www.googleapis.com/auth/cloud-platform''])]) of
                     Inl err \<Rightarrow> (Inl (Errorf_w ''marshal request body: '' err), w)
                   | Inr reqBody \<Rightarrow>
                       (case NewRequestWithContext P ''POST''
                               (impersonation_url serviceAccountEmail) reqBody of
                          Inl err \<Rightarrow> (Inl err, w)
                        | Inr req \<Rightarrow>
                            (case http_Do P (req\<lparr>Authorization := ''Bearer '' @ callerToken\<rparr>) w of
                               (Inl err, w') \<Rightarrow> (Inl err, w')
                             | (Inr resp, w') \<Rightarrow>
                                 (if StatusCode resp = 200 then
                                    (case DecodeAccessToken P (Body resp) of
                                       Inl err \<Rightarrow> (Inl err, w')
                                     | Inr token \<Rightarrow> (Inr token, w'))
                                  else
                                    (Inl (errorString (''failed to generate access token (status '' @
                                            Itoa (StatusCode resp) @ ''): '' @ Body resp)), w'))))))))"

fun randomLower :: "platform \<Rightarrow> nat \<Rightarrow> world \<Rightarrow> string \<times> world" where
  "randomLower P 0 w = ([], w)"
| "randomLower P (Suc n) w =
     (case rand_IntN P 26 w of
        (r, w1) \<Rightarrow> (case randomLower P n w1 of (rest, w2) \<Rightarrow> (char_of (r + 97) # rest, w2)))"

text \<open>
  The struct \<open>delegateCreds\<close> that \<open>createDelegatedCredsFile\<close> marshals. The file is
  written with mode \<open>0o600\<close>; the world keeps contents only, so the mode is not an
  argument of \<open>os_WriteFile\<close>.
\<close>

definition delegateCreds :: "string \<Rightarrow> string \<Rightarrow> json" where
  "delegateCreds currentADC serviceAccountEmail =
     JObject
       [(''delegates'', JArray [JString (''projects/-/serviceAccounts/'' @ serviceAccountEmail)]),
        (''type'', JString ''impersonated_service_account''),
        (''service_account_impersonation_url'', JString (impersonation_url serviceAccountEmail)),
        (''source_credentials'', RawMessage currentADC)]"

definition createDelegatedCredsFile ::
  "platform \<Rightarrow> string \<Rightarrow> string \<Rightarrow> world \<Rightarrow> (error + string) \<times> world" where
  "createDelegatedCredsFile P currentADC serviceAccountEmail w =
     (case json_Marshal (delegateCreds currentADC serviceAccountEmail) of
        Inl err \<Rightarrow> (Inl err, w)
      | Inr delegateCredsJSON \<Rightarrow>
          (case randomLower P 8 w of
             (suffix, w1) \<Rightarrow>
               (let credsPath =
                      filepath_Join [TempDir P, ''cloudrun-local-creds-'' @ suffix @ ''.json'']
                in case os_WriteFile P credsPath delegateCredsJSON w1 of
                     (Some err, w2) \<Rightarrow> (Inl err, w2)
                   | (None, w2) \<Rightarrow> (Inr credsPath, w2))))"

definition GetImpersonatedCredentials ::
  "platform \<Rightarrow> string \<Rightarrow> world \<Rightarrow> (error + Credentials) \<times> world" where
  "GetImpersonatedCredentials P serviceAccountEmail w =
     (case applicationDefaultCredentials P w of
        Inl err \<Rightarrow> (Inl err, w)
      | Inr currentADC \<Rightarrow>
          (case fetchImpersonatedAccessToken P serviceAccountEmail w of
             (Inl err, w1) \<Rightarrow> (Inl (Errorf_w ''fetch impersonated access token: '' err), w1)
           | (Inr token, w1) \<Rightarrow>
               (case createDelegatedCredsFile P currentADC serviceAccountEmail w1 of
                  (Inl err, w2) \<Rightarrow> (Inl (Errorf_w ''create credentials file: '' err), w2)
                | (Inr credsFile, w2) \<Rightarrow>
                    (Inr \<lparr>AccessToken = token, CredsFile = credsFile\<rparr>, w2))))"

definition Credentials_Cleanup ::
  "platform \<Rightarrow> Credentials \<Rightarrow> world \<Rightarrow> error option \<times> world" where
  "Credentials_Cleanup P c w =
     (if CredsFile c = [] then (None, w) else os_Remove P (CredsFile c) w)"

section \<open>Package config (unnamed/part_001, first part)\<close>

record SecretRef =
  Name :: string
  Key :: string

record EnvVar =
  Name :: string
  Value :: string
  SecretRef :: "SecretRef option"

record Config =
  ServiceName :: string
  ServiceAccount :: string
  ProjectID :: string
  EnvironmentVars :: "EnvVar list"

text \<open>
  One element of the \<open>env\<close> array as \<open>json.Unmarshal\<close> fills it: \<open>name\<close>, \<open>value\<close>,
  \<open>valueFrom.secretKeyRef.name\<close> and \<open>valueFrom.secretKeyRef.key\<close>, each the empty string
  when absent.
\<close>

record RawEnv =
  env_name :: string
  env_value :: string
  secretKeyRef_name :: string
  secretKeyRef_key :: string

record Container =
  Env :: "RawEnv list"

text \<open>
  The struct \<open>raw\<close> of \<open>parseService\<close> and of \<open>parseJob\<close>: \<open>metadata.name\<close>, and the
  \<open>serviceAccountName\<close> and \<open>containers\<close> found under \<open>spec.template.spec\<close> (Service) or
  \<open>spec.template.spec.template.spec\<close> (Job).
\<close>

record Manifest =
  Metadata_Name :: string
  ServiceAccountName :: string
  Containers :: "Container list"

definition extractProjectID :: "string \<Rightarrow> error + string" where
  "extractProjectID serviceAccount =
     (let parts = Split CHR ''@'' serviceAccount
      in if length parts = 2 then
           (let domainParts = Split CHR ''.'' (parts ! 1)
            in if length domainParts < 1 then
                 Inl (errorString (''invalid service account domain: '' @ parts ! 1))
               else
                 (let project = domainParts ! 0
                  in if project = [] then
                       Inl (errorString (''could not extract project ID from service account: '' @
                                         serviceAccount))
                     else Inr project))
         else Inl (errorString (''invalid service account format: '' @ serviceAccount)))"

fun parseEnvVars :: "RawEnv list \<Rightarrow> EnvVar list" where
  "parseEnvVars [] = []"
| "parseEnvVars (env # envArray) =
     (if env_value env = [] then
        (if secretKeyRef_name env = [] \<or> secretKeyRef_key env = [] then
           \<lparr>Name = env_name env, Value = [], SecretRef = None\<rparr>
         else
           \<lparr>Name = env_name env, Value = [],
            SecretRef = Some \<lparr>SecretRef.Name = secretKeyRef_name env,
                              Key = secretKeyRef_key env\<rparr>\<rparr>)
      else \<lparr>Name = env_name env, Value = env_value env, SecretRef = None\<rparr>)
     # parseEnvVars envArray"

text \<open>
  \<open>parseService\<close> and \<open>parseJob\<close> have the same body after \<open>json.Unmarshal\<close> has
  filled their struct \<open>raw\<close> (\<open>parseManifest\<close>); they take the result of that call.
  \<open>Parse\<close> takes the \<open>kind\<close> it has read and dispatches (reading the file and
  converting YAML come before and are not modelled).
\<close>

definition parseManifest :: "Manifest \<Rightarrow> error + Config" where
  "parseManifest raw =
     (if length (Containers raw) = 1 then
        (let serviceAccount = ServiceAccountName raw
         in if serviceAccount = [] then
              Inl (errorString ''serviceAccountName not found in config'')
            else
              (case extractProjectID serviceAccount of
                 Inl err \<Rightarrow> Inl (Errorf_w ''extract project ID: '' err)
               | Inr project \<Rightarrow>
                   Inr \<lparr>ServiceName = Metadata_Name raw, ServiceAccount = serviceAccount,
                        ProjectID = project,
                        EnvironmentVars = parseEnvVars (Env (Containers raw ! 0))\<rparr>))
      else Inl (errorString (''expected exactly 1 container, got '' @
                             Itoa (int (length (Containers raw))))))"

definition parseService :: "error + Manifest \<Rightarrow> error + Config" where
  "parseService unmarshalled =
     (case unmarshalled of
        Inl err \<Rightarrow> Inl (Errorf_w ''unmarshal service json: '' err)
      | Inr raw \<Rightarrow> parseManifest raw)"

definition parseJob :: "error + Manifest \<Rightarrow> error + Config" where
  "parseJob unmarshalled =
     (case unmarshalled of
        Inl err \<Rightarrow> Inl (Errorf_w ''unmarshal job json: '' err)
      | Inr raw \<Rightarrow> parseManifest raw)"

definition Parse :: "string \<Rightarrow> error + Manifest \<Rightarrow> error + Config" where
  "Parse kind unmarshalled =
     (if kind = ''Service'' then parseService unmarshalled
      else if kind = ''Job'' then parseJob unmarshalled
      else Inl (errorString (''unsupported kind: '' @ kind @ '' (expected Service or Job)'')))"

section \<open>Package env (unnamed/part_000)\<close>

record Resolver =
  config :: "Config option"
  creds :: "Credentials option"

definition NewResolver :: "platform \<Rightarrow> Config \<Rightarrow> world \<Rightarrow> (error + Resolver) \<times> world" where
  "NewResolver P cfg w =
     (case GetImpersonatedCredentials P (ServiceAccount cfg) w of
        (Inl err, w') \<Rightarrow> (Inl (Errorf_w ''get impersonated credentials: '' err), w')
      | (Inr c, w') \<Rightarrow> (Inr \<lparr>config = Some cfg, creds = Some c\<rparr>, w'))"

text \<open>The \<open>for\<close> loop of \<open>Resolve\<close> over \<open>r.config.EnvironmentVars\<close>.\<close>

fun resolve_loop ::
  "platform \<Rightarrow> Client \<Rightarrow> EnvVar list \<Rightarrow> string list \<Rightarrow> world \<Rightarrow> (error + string list) \<times> world" where
  "resolve_loop P secretsClient [] result w = (Inr result, w)"
| "resolve_loop P secretsClient (envVar # rest) result w =
     (if Value envVar = [] then
        (case SecretRef envVar of
           None \<Rightarrow> resolve_loop P secretsClient rest result w
         | Some ref \<Rightarrow>
             (case AccessSecretVersion P secretsClient (SecretRef.Name ref) (Key ref) w of
                (Inl err, w') \<Rightarrow>
                  (Inl (Errorf_w (''access secret '' @ SecretRef.Name ref @ '': '') err), w')
              | (Inr secretValue, w') \<Rightarrow>
                  resolve_loop P secretsClient rest
                    (result @ [Name envVar @ ''='' @ secretValue]) w'))
      else resolve_loop P secretsClient rest (result @ [Name envVar @ ''='' @ Value envVar]) w)"

text \<open>
  The Cloud Run metadata variables that \<open>Resolve\<close> appends to the empty \<open>result\<close>
  before the loop.
\<close>

definition metadata_vars :: "Config \<Rightarrow> Credentials \<Rightarrow> string list" where
  "metadata_vars cfg c =
     (if ServiceName cfg = [] then [] else [''K_SERVICE='' @ ServiceName cfg]) @
     [''K_REVISION=local''] @
     [''GOOGLE_CLOUD_PROJECT='' @ ProjectID cfg] @
     [''GOOGLE_APPLICATION_CREDENTIALS='' @ CredsFile c]"

text \<open>Reading \<open>r.config\<close> or \<open>r.creds\<close> through a nil pointer panics.\<close>

definition Resolve :: "platform \<Rightarrow> Resolver \<Rightarrow> world \<Rightarrow> (error + string list) \<times> world" where
  "Resolve P r w =
     (case config r of
        None \<Rightarrow> (Inl nilDereference, w)
      | Some cfg \<Rightarrow>
          (case creds r of
             None \<Rightarrow> (Inl nilDereference, w)
           | Some c \<Rightarrow>
               resolve_loop P (NewClient (AccessToken c) (ProjectID cfg)) (EnvironmentVars cfg)
                 (metadata_vars cfg c) w))"

definition Resolver_Cleanup :: "platform \<Rightarrow> Resolver \<Rightarrow> world \<Rightarrow> error option \<times> world" where
  "Resolver_Cleanup P r w =
     (case creds r of
        Some c \<Rightarrow> Credentials_Cleanup P c w
      | None \<Rightarrow> (None, w))"

section \<open>A concrete environment\<close>

text \<open>
  The scenario of the specification: a service \<open>svc\<close> run as
  \<open>sa@proj.iam.gserviceaccount.com\<close> with the literal variable \<open>FOO=bar\<close> and the
  variable \<open>BAZ\<close> read from version \<open>latest\<close> of the secret \<open>s\<close>, whose value is
  \<open>qux\<close>. The stand-in for the JSON decoder is as simple as possible: a response body
  is the very text of the one field the code reads from it. The caller's own
  credentials file holds \<open>{ }\<close>, an empty object with a space in it.
\<close>

definition example_email :: string where
  "example_email = ''sa@proj.iam.gserviceaccount.com''"

definition example_RoundTrip :: "nat \<Rightarrow> http_request \<Rightarrow> error + http_response" where
  "example_RoundTrip n req =
     (if URL req = impersonation_url example_email then
        Inr \<lparr>StatusCode = 200, Body = ''impersonated-token''\<rparr>
      else if URL req = ''https://secretmanager.googleapis.com/v1/projects/proj/secrets/s/versions/latest:access''
      then Inr \<lparr>StatusCode = 200, Body = ''cXV4''\<rparr>
      else Inr \<lparr>StatusCode = 403, Body = ''denied''\<rparr>)"

definition example_platform :: platform where
  "example_platform =
     \<lparr>Getenv = (\<lambda>key. []),
      UserHomeDir = Inr ''/home/dev'',
      TempDir = ''/tmp'',
      unreadable = (\<lambda>path. False),
      write_fault = (\<lambda>path. WriteOK),
      remove_fault = (\<lambda>path. None),
      rand_source = (\<lambda>i. i),
      FindDefaultCredentials = Inr (Inr ''caller-token''),
      url_error = (\<lambda>url. None),
      RoundTrip = example_RoundTrip,
      DecodePayloadData = Inr,
      DecodeAccessToken = Inr\<rparr>"

definition example_adc_path :: string where
  "example_adc_path = ''/home/dev/.config/gcloud/application_default_credentials.json''"

definition example_world :: world where
  "example_world = \<lparr>files = [example_adc_path \<mapsto> ''{ }''], sent = [], draws = 0\<rparr>"

definition example_manifest :: Manifest where
  "example_manifest =
     \<lparr>Metadata_Name = ''svc'',
      ServiceAccountName = example_email,
      Containers =
        [\<lparr>Env =
           [\<lparr>env_name = ''FOO'', env_value = ''bar'', secretKeyRef_name = [], secretKeyRef_key = []\<rparr>,
            \<lparr>env_name = ''BAZ'', env_value = [], secretKeyRef_name = ''s'',
             secretKeyRef_key = ''latest''\<rparr>]\<rparr>]\<rparr>"

definition example_config :: Config where
  "example_config =
     \<lparr>ServiceName = ''svc'', ServiceAccount = example_email, ProjectID = ''proj'',
      EnvironmentVars =
        [\<lparr>Name = ''FOO'', Value = ''bar'', SecretRef = None\<rparr>,
         \<lparr>Name = ''BAZ'', Value = [],
          SecretRef = Some \<lparr>SecretRef.Name = ''s'', Key = ''latest''\<rparr>\<rparr>]\<rparr>"

definition example_creds_path :: string where
  "example_creds_path = ''/tmp/cloudrun-local-creds-abcdefgh.json''"

definition example_creds :: Credentials where
  "example_creds = \<lparr>AccessToken = ''impersonated-token'', CredsFile = example_creds_path\<rparr>"

definition example_resolver :: Resolver where
  "example_resolver = \<lparr>config = Some example_config, creds = Some example_creds\<rparr>"


definition example_output :: "string list" where
  "example_output =
     [''K_SERVICE=svc'', ''K_REVISION=local'', ''GOOGLE_CLOUD_PROJECT=proj'',
      ''GOOGLE_APPLICATION_CREDENTIALS=/tmp/cloudrun-local-creds-abcdefgh.json'',
      ''FOO=bar'', ''BAZ=qux'']"

definition example_secret_request :: http_request where
  "example_secret_request =
     \<lparr>Method = ''GET'',
      URL = ''https://secretmanager.googleapis.com/v1/projects/proj/secrets/s/versions/latest:access'',
      Authorization = ''Bearer impersonated-token'',
      RequestBody = []\<rparr>"

text \<open>
  A second configuration whose middle declaration names a secret that the endpoint
  refuses (status 403), and a raw declaration with no value and half a secret
  coordinate.
\<close>

definition example_denied_config :: Config where
  "example_denied_config =
     example_config\<lparr>EnvironmentVars :=
        [\<lparr>Name = ''FOO'', Value = ''bar'', SecretRef = None\<rparr>,
         \<lparr>Name = ''BAZ'', Value = [],
          SecretRef = Some \<lparr>SecretRef.Name = ''other'', Key = ''latest''\<rparr>\<rparr>,
         \<lparr>Name = ''LATER'', Value = ''never'', SecretRef = None\<rparr>]\<rparr>"

definition example_denied_request :: http_request where
  "example_denied_request =
     \<lparr>Method = ''GET'',
      URL = ''https://secretmanager.googleapis.com/v1/projects/proj/secrets/other/versions/latest:access'',
      Authorization = ''Bearer impersonated-token'',
      RequestBody = []\<rparr>"

definition example_incomplete_env :: RawEnv where
  "example_incomplete_env =
     \<lparr>env_name = ''HALF'', env_value = [], secretKeyRef_name = ''s'', secretKeyRef_key = []\<rparr>"

text \<open>
  The world after the credentials of the scenario have been acquired, an endpoint that
  answers every request with status 200 and an empty body, and a platform whose disk
  is full: \<open>os.WriteFile\<close> creates the file and fails before writing a byte.
\<close>

definition example_artifact :: string where
  "example_artifact =
     ''{\"delegates\":[\"projects/-/serviceAccounts/sa@proj.iam.gserviceaccount.com\"],'' @
     ''\"type\":\"impersonated_service_account\",'' @
     ''\"service_account_impersonation_url\":'' @
     ''\"https://iamcredentials.googleapis.com/v1/projects/-/serviceAccounts/'' @
     ''sa@proj.iam.gserviceaccount.com:generateAccessToken\",'' @
     ''\"source_credentials\":{}}''"

definition example_token_request :: http_request where
  "example_token_request =
     \<lparr>Method = ''POST'',
      URL = impersonation_url example_email,
      Authorization = ''Bearer caller-token'',
      RequestBody =
        ''{\"delegates\":[\"projects/-/serviceAccounts/sa@proj.iam.gserviceaccount.com\"],'' @
        ''\"scope\":[\"https://www.googleapis.com/auth/cloud-platform\"]}''\<rparr>"

definition example_acquired_world :: world where
  "example_acquired_world =
     \<lparr>files = [example_adc_path \<mapsto> ''{ }'', example_creds_path \<mapsto> example_artifact],
      sent = [example_token_request],
      draws = 8\<rparr>"

definition example_empty_platform :: platform where
  "example_empty_platform =
     example_platform\<lparr>RoundTrip := (\<lambda>n req. Inr \<lparr>StatusCode = 200, Body = []\<rparr>)\<rparr>"

definition example_full_disk_platform :: platform where
  "example_full_disk_platform = example_platform\<lparr>write_fault := (\<lambda>path. WriteFails ENOSPC 0)\<rparr>"

section \<open>Facts about the base64 model\<close>

lemma index_of_nth: "distinct xs \<Longrightarrow> i < length xs \<Longrightarrow> index_of (xs ! i) xs = Some i"
proof (induction xs arbitrary: i)
  case Nil
  then show ?case by simp
next
  case (Cons x xs)
  show ?case
  proof (cases i)
    case 0
    then show ?thesis by simp
  next
    case (Suc j)
    with Cons.prems have "j < length xs" "xs ! j \<in> set xs" "x \<notin> set xs" "distinct xs" by auto
    with Cons.IH[of j] Suc show ?thesis by auto
  qed
qed

lemma distinct_encodeStd: "distinct encodeStd"
  by (simp add: encodeStd_def)

lemma length_encodeStd: "length encodeStd = 64"
  by (simp add: encodeStd_def)

lemma decodeMap_enc6: "i < 64 \<Longrightarrow> decodeMap (enc6 i) = Some i"
  by (simp add: decodeMap_def enc6_def index_of_nth distinct_encodeStd length_encodeStd)

lemma decodeMap_pad: "decodeMap CHR ''='' = None"
  by (simp add: decodeMap_def encodeStd_def)

text \<open>The four six-bit digits of a number below \<open>2^24\<close> give the number back.\<close>

lemma digits64:
  fixes v :: nat
  assumes "v < 16777216"
  shows "(v div 262144 mod 64) * 262144 + (v div 4096 mod 64) * 4096 + (v div 64 mod 64) * 64
         + v mod 64 = v"
proof -
  define q1 where "q1 = v div 64"
  define q2 where "q2 = q1 div 64"
  define q3 where "q3 = q2 div 64"
  have e1: "v div 4096 = q2"
    unfolding q2_def q1_def by (simp add: div_mult2_eq)
  have e2: "v div 262144 = q3"
    unfolding q3_def q2_def q1_def by (simp add: div_mult2_eq)
  have "q3 < 64"
    using assms unfolding e2[symmetric] by simp
  then have m3: "q3 mod 64 = q3" by simp
  have a: "v = q1 * 64 + v mod 64"
    unfolding q1_def by simp
  have b: "q1 = q2 * 64 + q1 mod 64"
    unfolding q2_def by simp
  have c: "q2 = q3 * 64 + q2 mod 64"
    unfolding q3_def by simp
  define r0 where "r0 = v mod 64"
  define r1 where "r1 = q1 mod 64"
  define r2 where "r2 = q2 mod 64"
  have "q3 * 262144 + r2 * 4096 + r1 * 64 + r0 = v"
    using a b c unfolding r0_def[symmetric] r1_def[symmetric] r2_def[symmetric] by linarith
  then show ?thesis
    unfolding e1 e2 m3 r0_def r1_def r2_def q1_def[symmetric] by simp
qed

lemma bytes3:
  fixes x y z :: nat
  assumes "x < 256" "y < 256" "z < 256"
  shows "(x * 65536 + y * 256 + z) div 65536 mod 256 = x"
    and "(x * 65536 + y * 256 + z) div 256 mod 256 = y"
    and "(x * 65536 + y * 256 + z) mod 256 = z"
    and "x * 65536 + y * 256 + z < 16777216"
proof -
  have lo: "y * 256 + z < 65536" using assms by linarith
  have "(x * 65536 + (y * 256 + z)) div 65536 = x"
    using lo by simp
  then show "(x * 65536 + y * 256 + z) div 65536 mod 256 = x"
    using assms by (simp add: add.assoc)
  have "x * 65536 + y * 256 + z = (x * 256 + y) * 256 + z" by simp
  then have "(x * 65536 + y * 256 + z) div 256 = x * 256 + y"
    using assms by simp
  then show "(x * 65536 + y * 256 + z) div 256 mod 256 = y"
    using assms by simp
  have eq: "x * 65536 + y * 256 + z = (x * 256 + y) * 256 + z" by simp
  have "((x * 256 + y) * 256 + z) mod 256 = z"
    using assms(3) by (simp only: mod_mult_self3 mod_less)
  then show "(x * 65536 + y * 256 + z) mod 256 = z"
    by (simp only: eq)
  show "x * 65536 + y * 256 + z < 16777216" using assms by linarith
qed

lemma quantum_bytes_digits:
  assumes "v < 16777216"
  shows "quantum_bytes [v div 262144 mod 64, v div 4096 mod 64, v div 64 mod 64, v mod 64]
         = [char_of (v div 65536), char_of (v div 256), char_of v]"
  by (simp add: quantum_bytes_def digits64[OF assms])

lemma quantum_bytes_val:
  fixes x y z :: nat
  assumes "x < 256" "y < 256" "z < 256" and v: "v = x * 65536 + y * 256 + z"
  shows "quantum_bytes [v div 262144 mod 64, v div 4096 mod 64, v div 64 mod 64, v mod 64]
         = [char_of x, char_of y, char_of z]"
proof -
  have lt: "v < 16777216" unfolding v by (rule bytes3(4)[OF assms(1-3)])
  have "char_of (v div 65536) = (char_of x :: char)"
    unfolding v char_of_quasi_inj using bytes3(1)[OF assms(1-3)] assms(1) by simp
  moreover have "char_of (v div 256) = (char_of y :: char)"
    unfolding v char_of_quasi_inj using bytes3(2)[OF assms(1-3)] assms(2) by simp
  moreover have "char_of v = (char_of z :: char)"
    unfolding v char_of_quasi_inj using bytes3(3)[OF assms(1-3)] assms(3) by simp
  ultimately show ?thesis
    by (simp only: quantum_bytes_digits[OF lt])
qed

lemma decode_quad:
  assumes "v0 < 64" "v1 < 64" "v2 < 64" "v3 < 64"
  shows "decode [] (enc6 v0 # enc6 v1 # enc6 v2 # enc6 v3 # cs) si =
           (case decode [] cs (si + 4) of Inl e \<Rightarrow> Inl e
            | Inr later \<Rightarrow> Inr (quantum_bytes [v0, v1, v2, v3] @ later))"
proof -
  have e: "si + 4 = Suc (Suc (Suc (Suc si)))" by simp
  show ?thesis
    unfolding e using assms by (simp add: decodeMap_enc6 cong: sum.case_cong)
qed

lemma decode_pad1:
  assumes "v0 < 64" "v1 < 64" "v2 < 64"
  shows "decode [] [enc6 v0, enc6 v1, enc6 v2, CHR ''=''] si =
           Inr (take 2 (quantum_bytes [v0, v1, v2, 0]))"
  using assms
  by (simp add: decodeMap_enc6 decodeMap_pad is_newline_def padding_def pad_tail_def
      quantum_bytes_def Let_def)

lemma decode_pad2:
  assumes "v0 < 64" "v1 < 64"
  shows "decode [] [enc6 v0, enc6 v1, CHR ''='', CHR ''=''] si =
           Inr (take 1 (quantum_bytes [v0, v1, 0, 0]))"
  using assms
  by (simp add: decodeMap_enc6 decodeMap_pad is_newline_def padding_def pad_tail_def
      quantum_bytes_def Let_def)

lemma digit_lt: "(n::nat) mod 64 < 64"
  by simp

text \<open>Decoding undoes encoding, group by group.\<close>

lemma decode_Encode: "decode [] (EncodeToString bs) si = Inr bs"
proof (induction bs arbitrary: si rule: EncodeToString.induct)
  case (1 a b c rest)
  define v :: nat where "v = of_char a * 65536 + of_char b * 256 + of_char c"
  have bnd: "(of_char a :: nat) < 256" "(of_char b :: nat) < 256" "(of_char c :: nat) < 256"
    by simp_all
  have enc: "EncodeToString (a # b # c # rest) =
      enc6 (v div 262144 mod 64) # enc6 (v div 4096 mod 64) # enc6 (v div 64 mod 64) #
      enc6 (v mod 64) # EncodeToString rest"
    unfolding v_def by (simp add: Let_def)
  have q: "quantum_bytes [v div 262144 mod 64, v div 4096 mod 64, v div 64 mod 64, v mod 64]
      = [a, b, c]"
    using quantum_bytes_val[OF bnd v_def] by simp
  show ?case
    unfolding enc decode_quad[OF digit_lt digit_lt digit_lt digit_lt] q "1.IH" by simp
next
  case (2 a b)
  define v :: nat where "v = of_char a * 65536 + of_char b * 256 + 0"
  have bnd: "(of_char a :: nat) < 256" "(of_char b :: nat) < 256" "(0 :: nat) < 256"
    by simp_all
  have enc: "EncodeToString [a, b] =
      [enc6 (v div 262144 mod 64), enc6 (v div 4096 mod 64), enc6 (v div 64 mod 64), CHR ''='']"
    unfolding v_def by (simp add: Let_def)
  have "v = (of_char a * 1024 + of_char b * 4) * 64" unfolding v_def by simp
  then have m0: "v mod 64 = 0" by (simp only: mod_mult_self2_is_0)
  have "quantum_bytes [v div 262144 mod 64, v div 4096 mod 64, v div 64 mod 64, v mod 64]
      = [a, b, char_of (0::nat)]"
    using quantum_bytes_val[OF bnd v_def] by simp
  then have q: "take 2 (quantum_bytes [v div 262144 mod 64, v div 4096 mod 64, v div 64 mod 64, 0])
      = [a, b]"
    unfolding m0 by simp
  show ?case
    unfolding enc decode_pad1[OF digit_lt digit_lt digit_lt] q by simp
next
  case (3 a)
  define v :: nat where "v = of_char a * 65536 + 0 * 256 + 0"
  have bnd: "(of_char a :: nat) < 256" "(0 :: nat) < 256" "(0 :: nat) < 256"
    by simp_all
  have enc: "EncodeToString [a] =
      [enc6 (v div 262144 mod 64), enc6 (v div 4096 mod 64), CHR ''='', CHR ''='']"
    unfolding v_def by (simp add: Let_def)
  have "v = (of_char a * 1024) * 64" unfolding v_def by simp
  then have m0: "v mod 64 = 0" by (simp only: mod_mult_self2_is_0)
  have "v div 64 = (of_char a * 16) * 64" unfolding v_def by simp
  then have m1: "v div 64 mod 64 = 0" by (simp only: mod_mult_self2_is_0)
  have "quantum_bytes [v div 262144 mod 64, v div 4096 mod 64, v div 64 mod 64, v mod 64]
      = [a, char_of (0::nat), char_of (0::nat)]"
    using quantum_bytes_val[OF bnd v_def] by simp
  then have q: "take 1 (quantum_bytes [v div 262144 mod 64, v div 4096 mod 64, 0, 0])
      = [a]"
    unfolding m0 m1 by simp
  show ?case
    unfolding enc decode_pad2[OF digit_lt digit_lt] q by simp
next
  case 4
  show ?case by simp
qed

lemma DecodeString_EncodeToString: "DecodeString (EncodeToString bs) = Inr bs"
  by (simp add: DecodeString_def decode_Encode)

lemma EncodeToString_empty_iff: "EncodeToString bs = [] \<longleftrightarrow> bs = []"
  by (induction bs rule: EncodeToString.induct) (simp_all add: Let_def)

section \<open>Facts about the resolution loop\<close>

text \<open>The loop over a concatenation is the loop over the first part, then over the second.\<close>

lemma resolve_loop_append:
  "resolve_loop P cl (xs @ ys) acc w =
     (case resolve_loop P cl xs acc w of
        (Inl e, w') \<Rightarrow> (Inl e, w')
      | (Inr acc', w') \<Rightarrow> resolve_loop P cl ys acc' w')"
proof (induction xs arbitrary: acc w)
  case Nil
  show ?case by simp
next
  case (Cons x xs)
  show ?case
    by (simp add: Cons.IH split: option.split sum.split prod.split)
qed

text \<open>The loop only appends to \<open>result\<close>: what it had at the start stays in front.\<close>

lemma resolve_loop_acc:
  "resolve_loop P cl xs acc w =
     (case resolve_loop P cl xs [] w of
        (Inl e, w') \<Rightarrow> (Inl e, w')
      | (Inr out, w') \<Rightarrow> (Inr (acc @ out), w'))"
proof (induction xs arbitrary: acc w)
  case Nil
  show ?case by simp
next
  case (Cons x xs)
  note IH = Cons.IH
  show ?case
  proof (cases "Value x = []")
    case False
    then show ?thesis
      using IH[of "acc @ [Name x @ ''='' @ Value x]" w] IH[of "[Name x @ ''='' @ Value x]" w]
      by (simp split: sum.split prod.split)
  next
    case True
    show ?thesis
    proof (cases "SecretRef x")
      case None
      with True show ?thesis using IH[of acc w] by simp
    next
      case (Some ref)
      show ?thesis
      proof (cases "AccessSecretVersion P cl (SecretRef.Name ref) (Key ref) w")
        case (Pair res w1)
        show ?thesis
        proof (cases res)
          case (Inl e)
          with True Some Pair show ?thesis by simp
        next
          case (Inr v)
          with True Some Pair show ?thesis
            using IH[of "acc @ [Name x @ ''='' @ v]" w1] IH[of "[Name x @ ''='' @ v]" w1]
            by (simp split: sum.split prod.split)
        qed
      qed
    qed
  qed
qed

lemma resolve_loop_Inr:
  assumes "resolve_loop P cl xs acc w = (Inr out, w')"
  shows "\<exists>rest. resolve_loop P cl xs [] w = (Inr rest, w') \<and> out = acc @ rest"
  using assms resolve_loop_acc[of P cl xs acc w]
  by (auto split: sum.splits prod.splits)

lemma parseEnvVars_append: "parseEnvVars (xs @ ys) = parseEnvVars xs @ parseEnvVars ys"
  by (induction xs) simp_all

section \<open>Facts about the descriptor parser\<close>

lemma Split_nonempty: "Split sep s \<noteq> []"
  by (induction s) (auto split: list.split)

lemma Split_no_sep: "sep \<notin> set s \<Longrightarrow> Split sep s = [s]"
  by (induction s) auto

lemma Split_length: "length (Split sep s) = Suc (count_list s sep)"
  by (induction s) (auto split: list.split simp: Split_nonempty)

lemma Split_hd: "hd (Split sep s) = takeWhile (\<lambda>ch. ch \<noteq> sep) s"
  by (induction s) (auto split: list.split simp: Split_nonempty)

lemma count_list_0: "count_list s x = 0 \<Longrightarrow> x \<notin> set s"
  by (induction s) (auto split: if_splits)

lemma Split_two:
  assumes "length (Split sep s) = 2"
  shows "\<exists>a b. s = a @ sep # b \<and> sep \<notin> set a \<and> sep \<notin> set b \<and> Split sep s = [a, b]"
  using assms
proof (induction s)
  case Nil
  then show ?case by simp
next
  case (Cons x xs)
  show ?case
  proof (cases "x = sep")
    case True
    with Cons.prems have "length (Split sep xs) = 1" by simp
    then have "count_list xs sep = 0" by (simp add: Split_length)
    then have no: "sep \<notin> set xs" by (rule count_list_0)
    have "x # xs = [] @ sep # xs \<and> sep \<notin> set [] \<and> sep \<notin> set xs \<and>
          Split sep (x # xs) = [[], xs]"
      using True no by (simp add: Split_no_sep)
    then show ?thesis by blast
  next
    case False
    with Cons.prems have "length (Split sep xs) = 2"
      by (auto split: list.splits)
    from Cons.IH[OF this] obtain a b where
      ab: "xs = a @ sep # b" "sep \<notin> set a" "sep \<notin> set b" "Split sep xs = [a, b]"
      by blast
    have "x # xs = (x # a) @ sep # b \<and> sep \<notin> set (x # a) \<and> sep \<notin> set b \<and>
          Split sep (x # xs) = [x # a, b]"
      using False ab by simp
    then show ?thesis by blast
  qed
qed

lemma extractProjectID_Inr:
  assumes "extractProjectID identity = Inr p"
  shows "\<exists>local domain. identity = local @ ''@'' @ domain \<and>
           CHR ''@'' \<notin> set local \<and> CHR ''@'' \<notin> set domain \<and>
           p = takeWhile (\<lambda>ch. ch \<noteq> CHR ''.'') domain \<and> p \<noteq> []"
proof -
  from assms have len: "length (Split CHR ''@'' identity) = 2"
    by (auto simp: extractProjectID_def Let_def split: if_splits)
  from Split_two[OF len] obtain a b where
    ab: "identity = a @ CHR ''@'' # b" "CHR ''@'' \<notin> set a" "CHR ''@'' \<notin> set b"
        "Split CHR ''@'' identity = [a, b]"
    by blast
  have nth0: "Split CHR ''.'' b ! 0 = takeWhile (\<lambda>ch. ch \<noteq> CHR ''.'') b"
    using Split_hd[of "CHR ''.''" b] Split_nonempty[of "CHR ''.''" b]
    by (simp add: hd_conv_nth)
  from assms have "p = Split CHR ''.'' b ! 0 \<and> p \<noteq> []"
    unfolding extractProjectID_def Let_def ab(4)
    by (auto split: if_splits)
  with nth0 ab(1-3) show ?thesis by auto
qed

lemma extractProjectID_Inl:
  assumes "count_list identity CHR ''@'' \<noteq> 1"
  shows "extractProjectID identity =
           Inl (errorString (''invalid service account format: '' @ identity))"
  using assms by (simp add: extractProjectID_def Let_def Split_length)

lemma parseManifest_Inr:
  assumes "parseManifest raw = Inr cfg"
  shows "ServiceAccount cfg = ServiceAccountName raw \<and>
         extractProjectID (ServiceAccountName raw) = Inr (ProjectID cfg)"
  using assms
  by (auto simp: parseManifest_def Let_def split: if_splits sum.splits)

lemma Parse_Inr:
  assumes "Parse kind unmarshalled = Inr cfg"
  shows "\<exists>raw. unmarshalled = Inr raw \<and> parseManifest raw = Inr cfg"
  using assms
  by (auto simp: Parse_def parseService_def parseJob_def split: if_splits sum.splits)

lemma parseManifest_rejects:
  assumes "extractProjectID (ServiceAccountName raw) = Inl e"
  shows "\<exists>err. parseManifest raw = Inl err"
  using assms by (simp add: parseManifest_def Let_def)

lemma Parse_rejects:
  assumes "extractProjectID (ServiceAccountName raw) = Inl e"
  shows "\<exists>err. Parse kind (Inr raw) = Inl err"
  using parseManifest_rejects[OF assms]
  by (auto simp: Parse_def parseService_def parseJob_def)

section \<open>Facts about paths and JSON\<close>









lemma of_char_eq_D: "(of_char c :: nat) = n \<Longrightarrow> c = char_of n"
  by (metis char_of_char)

lemma escape_ascii_plain:
  assumes "32 \<le> (of_char c :: nat)"
    and "c \<noteq> CHR 0x22" and "c \<noteq> CHR 0x5C" and "\<not> html_byte c"
  shows "escape_ascii c = [c]"
proof -
  have "(of_char c :: nat) \<noteq> 34" "(of_char c :: nat) \<noteq> 92" "(of_char c :: nat) \<noteq> 38"
    "(of_char c :: nat) \<noteq> 60" "(of_char c :: nat) \<noteq> 62"
    using assms(2-4)
    by (auto simp: html_byte_def char_of_eq_iff take_bit_eq_mod dest!: of_char_eq_D)
  with assms(1) show ?thesis by (simp add: escape_ascii_def Let_def)
qed

text \<open>A string of printable ASCII without the five bytes that are escaped is written as it is.\<close>

lemma string_body_plain:
  assumes "\<forall>c \<in> set s. 32 \<le> (of_char c :: nat) \<and> (of_char c :: nat) < 128 \<and>
             c \<noteq> CHR 0x22 \<and> c \<noteq> CHR 0x5C \<and> \<not> html_byte c"
  shows "string_body s = s"
  using assms by (induction s) (simp_all add: escape_ascii_plain)

lemma json_Marshal_delegateCreds:
  "json_Marshal (delegateCreds standing target) =
     (case compact standing of
        Inl e \<Rightarrow>
          Inl (wrapError (''json: error calling MarshalJSON for type json.RawMessage: '' @ Error e) e)
      | Inr compacted \<Rightarrow>
          Inr (''{\"delegates\":['' @ appendString (''projects/-/serviceAccounts/'' @ target) @
               ''],\"type\":\"impersonated_service_account\",'' @
               ''\"service_account_impersonation_url\":'' @
               appendString (impersonation_url target) @
               '',\"source_credentials\":'' @ compacted @ ''}''))"
proof -
  have "string_body ''impersonated_service_account'' = ''impersonated_service_account''"
    by (rule string_body_plain) (simp add: html_byte_def)
  then show ?thesis
    by (simp add: delegateCreds_def appendString_def split: sum.splits)
qed

lemma json_Marshal_request:
  "json_Marshal (JObject
      [(''delegates'', JArray [JString (''projects/-/serviceAccounts/'' @ target)]),
       (''scope'', JArray [JString ''https://www.googleapis.com/auth/cloud-platform''])]) =
   Inr (''{\"delegates\":['' @ appendString (''projects/-/serviceAccounts/'' @ target) @
        ''],\"scope\":[\"https://www.googleapis.com/auth/cloud-platform\"]}'')"
proof -
  have "string_body ''https://www.googleapis.com/auth/cloud-platform'' =
          ''https://www.googleapis.com/auth/cloud-platform''"
    by (rule string_body_plain) (simp add: html_byte_def)
  then show ?thesis
    by (simp add: appendString_def)
qed











section \<open>Facts about acquiring the credentials\<close>


text \<open>
  \<open>randomLower\<close> uses the next \<open>n\<close> draws: letter \<open>i\<close> is the letter number
  \<open>rand.IntN(26)\<close> of draw \<open>i\<close>.
\<close>

lemma randomLower_result:
  assumes "randomLower P n w = (s, w')"
  shows "s = map (\<lambda>i. char_of (rand_source P (draws w + i) mod 26 + 97)) [0..<n] \<and>
         w' = w\<lparr>draws := draws w + n\<rparr>"
  using assms
proof (induction n arbitrary: w s w')
  case 0
  then show ?case by simp
next
  case (Suc n)
  obtain rest w2 where rec: "randomLower P n (w\<lparr>draws := Suc (draws w)\<rparr>) = (rest, w2)"
    by (cases "randomLower P n (w\<lparr>draws := Suc (draws w)\<rparr>)")
  from Suc.prems rec have s: "s = char_of (rand_source P (draws w) mod 26 + 97) # rest"
    and w': "w' = w2"
    by (simp_all add: rand_IntN_def)
  from Suc.IH[OF rec] have ih:
    "rest = map (\<lambda>i. char_of (rand_source P (Suc (draws w) + i) mod 26 + 97)) [0..<n]"
    "w2 = w\<lparr>draws := Suc (draws w), draws := draws (w\<lparr>draws := Suc (draws w)\<rparr>) + n\<rparr>"
    by simp_all
  have "map (\<lambda>i. char_of (rand_source P (draws w + i) mod 26 + 97) :: char) [0..<Suc n] =
        char_of (rand_source P (draws w) mod 26 + 97) #
        map (\<lambda>i. char_of (rand_source P (Suc (draws w) + i) mod 26 + 97)) [0..<n]"
    unfolding map_upt_Suc by simp
  with s w' ih show ?case by simp
qed


lemma fetchImpersonatedAccessToken_world:
  assumes "fetchImpersonatedAccessToken P target w = (res, w')"
  shows "files w' = files w \<and> draws w' = draws w"
  using assms
  by (auto simp: fetchImpersonatedAccessToken_def http_Do_def
      split: sum.splits if_splits prod.splits)


lemma createDelegatedCredsFile_Inl:
  assumes "createDelegatedCredsFile P standing target w = (Inl e, w')"
  shows "files w' = files w \<or>
         (\<exists>path e0 n. write_fault P path = WriteFails e0 n \<and> e = PathError ''write'' path e0 \<and>
            (\<forall>q. q \<noteq> path \<longrightarrow> files w' q = files w q))"
proof (cases "json_Marshal (delegateCreds standing target)")
  case (Inl a)
  with assms show ?thesis by (simp add: createDelegatedCredsFile_def)
next
  case (Inr written)
  obtain suffix w1 where rl: "randomLower P 8 w = (suffix, w1)"
    by (cases "randomLower P 8 w")
  from randomLower_result[OF rl] have w1: "files w1 = files w" by simp
  let ?path = "filepath_Join [TempDir P, ''cloudrun-local-creds-'' @ suffix @ ''.json'']"
  show ?thesis
  proof (cases "write_fault P ?path")
    case WriteOK
    with assms Inr rl show ?thesis
      by (simp add: createDelegatedCredsFile_def os_WriteFile_def Let_def
          del: filepath_Join.simps)
  next
    case (OpenFails e0)
    with assms Inr rl w1 show ?thesis
      by (auto simp: createDelegatedCredsFile_def os_WriteFile_def Let_def
          simp del: filepath_Join.simps)
  next
    case (WriteFails e0 n)
    with assms Inr rl have "e = PathError ''write'' ?path e0"
      and "w' = w1\<lparr>files := (files w1)(?path \<mapsto> take n written)\<rparr>"
      by (auto simp: createDelegatedCredsFile_def os_WriteFile_def Let_def
          simp del: filepath_Join.simps)
    with w1 WriteFails have "write_fault P ?path = WriteFails e0 n \<and>
        e = PathError ''write'' ?path e0 \<and> (\<forall>q. q \<noteq> ?path \<longrightarrow> files w' q = files w q)"
      by simp
    then show ?thesis by blast
  qed
qed

text \<open>
  When \<open>GetImpersonatedCredentials\<close> returns an error, the files on disk are as they
  were before the call, with one exception: the standing credentials were read, the
  impersonated token was obtained, and \<open>os.WriteFile\<close> failed while writing, after it
  had opened the artifact file. In that case every other path is as it was.
\<close>

lemma GetImpersonatedCredentials_Inl:
  assumes "GetImpersonatedCredentials P target w = (Inl err, w')"
  shows "files w' = files w \<or>
         (\<exists>standing token w1 path e n.
            applicationDefaultCredentials P w = Inr standing \<and>
            fetchImpersonatedAccessToken P target w = (Inr token, w1) \<and>
            write_fault P path = WriteFails e n \<and>
            err = Errorf_w ''create credentials file: '' (PathError ''write'' path e) \<and>
            (\<forall>q. q \<noteq> path \<longrightarrow> files w' q = files w q))"
proof (cases "applicationDefaultCredentials P w")
  case (Inl e)
  with assms show ?thesis by (simp add: GetImpersonatedCredentials_def)
next
  case (Inr standing)
  obtain res w1 where f: "fetchImpersonatedAccessToken P target w = (res, w1)"
    by (cases "fetchImpersonatedAccessToken P target w")
  from fetchImpersonatedAccessToken_world[OF f] have w1: "files w1 = files w" by simp
  show ?thesis
  proof (cases res)
    case (Inl e)
    with assms Inr f w1 show ?thesis by (simp add: GetImpersonatedCredentials_def)
  next
    case (Inr token)
    obtain res2 w2 where cr: "createDelegatedCredsFile P standing target w1 = (res2, w2)"
      by (cases "createDelegatedCredsFile P standing target w1")
    from assms \<open>applicationDefaultCredentials P w = Inr standing\<close> f Inr cr
    obtain e where res2: "res2 = Inl e" and err: "err = Errorf_w ''create credentials file: '' e"
      and w': "w' = w2"
      by (cases res2) (auto simp: GetImpersonatedCredentials_def)
    from createDelegatedCredsFile_Inl[OF cr[unfolded res2]] w1 w'
    have "files w' = files w \<or>
         (\<exists>path e0 n. write_fault P path = WriteFails e0 n \<and> e = PathError ''write'' path e0 \<and>
            (\<forall>q. q \<noteq> path \<longrightarrow> files w' q = files w q))"
      by simp
    then show ?thesis
    proof
      assume "files w' = files w"
      then show ?thesis by simp
    next
      assume "\<exists>path e0 n. write_fault P path = WriteFails e0 n \<and> e = PathError ''write'' path e0 \<and>
            (\<forall>q. q \<noteq> path \<longrightarrow> files w' q = files w q)"
      then obtain path e0 n where "write_fault P path = WriteFails e0 n"
        "e = PathError ''write'' path e0" "\<forall>q. q \<noteq> path \<longrightarrow> files w' q = files w q"
        by blast
      with \<open>applicationDefaultCredentials P w = Inr standing\<close> f Inr err
      have "applicationDefaultCredentials P w = Inr standing \<and>
            fetchImpersonatedAccessToken P target w = (Inr token, w1) \<and>
            write_fault P path = WriteFails e0 n \<and>
            err = Errorf_w ''create credentials file: '' (PathError ''write'' path e0) \<and>
            (\<forall>q. q \<noteq> path \<longrightarrow> files w' q = files w q)"
        by simp
      then show ?thesis by blast
    qed
  qed
qed

section \<open>Facts about the concrete environment\<close>

lemmas example_defs =
  example_platform_def example_resolver_def example_config_def example_creds_def
  example_creds_path_def example_world_def example_RoundTrip_def example_email_def
  example_output_def example_secret_request_def example_adc_path_def

lemmas base64_defs =
  DecodeString_def decodeMap_def encodeStd_def quantum_bytes_def
  is_newline_def padding_def pad_tail_def char_of_eq_iff take_bit_eq_mod

lemma example_Resolve:
  "Resolve example_platform example_resolver example_world =
     (Inr example_output, example_world\<lparr>sent := [example_secret_request]\<rparr>)"
  by (simp add: Resolve_def metadata_vars_def NewClient_def AccessSecretVersion_def
      NewRequestWithContext_def http_Do_def impersonation_url_def Let_def
      example_defs base64_defs)

lemma example_denied:
  "AccessSecretVersion example_platform (NewClient ''impersonated-token'' ''proj'')
     ''other'' ''latest'' example_world =
     (Inl (errorString ''expected 200 response status, received 403''),
      example_world\<lparr>sent := [example_denied_request]\<rparr>)"
  by (simp add: AccessSecretVersion_def NewClient_def NewRequestWithContext_def http_Do_def
      impersonation_url_def Let_def Itoa_def utoa.simps digit_char_def
      example_defs example_denied_request_def)

lemma example_Parse: "Parse ''Service'' (Inr example_manifest) = Inr example_config"
  by (simp add: Parse_def parseService_def parseManifest_def extractProjectID_def Let_def
      example_manifest_def example_config_def example_email_def)

lemma eight: "(8::nat) = Suc (Suc (Suc (Suc (Suc (Suc (Suc (Suc 0)))))))"
  by simp

lemma example_adc_Join:
  "filepath_Join [filepath_Join [''/home/dev'', ''.config'', ''gcloud''],
     ''application_default_credentials.json''] = example_adc_path"
  by (simp add: filepath_Clean_def Let_def example_adc_path_def)

lemma example_creds_Join:
  "filepath_Join [''/tmp'', ''cloudrun-local-creds-abcdefgh.json''] = example_creds_path"
  by (simp add: filepath_Clean_def Let_def example_creds_path_def)

lemma example_compact: "compact ''{ }'' = Inr ''{}''"
  by (simp add: compact_def scanner_reset_def scan_byte_def do_stateBeginValue_def isSpace_def
      pushParseState_def do_stateEndValue_def popParseState_def html_byte_def
      line_separator_def scanner_eof_def do_stateEndTop_def do_stateBeginString_def)

lemma example_Marshal: "json_Marshal (delegateCreds ''{ }'' example_email) = Inr example_artifact"
proof -
  have "string_body ''projects/-/serviceAccounts/sa@proj.iam.gserviceaccount.com'' =
          ''projects/-/serviceAccounts/sa@proj.iam.gserviceaccount.com''"
    by (rule string_body_plain) (simp add: html_byte_def)
  moreover have "string_body ''https://iamcredentials.googleapis.com/v1/projects/-/serviceAccounts/sa@proj.iam.gserviceaccount.com:generateAccessToken'' =
          ''https://iamcredentials.googleapis.com/v1/projects/-/serviceAccounts/sa@proj.iam.gserviceaccount.com:generateAccessToken''"
    by (rule string_body_plain) (simp add: html_byte_def)
  ultimately show ?thesis
    unfolding json_Marshal_delegateCreds example_compact
    by (simp add: appendString_def impersonation_url_def example_email_def example_artifact_def)
qed

lemma example_request_body:
  "json_Marshal (JObject
      [(''delegates'', JArray [JString (''projects/-/serviceAccounts/'' @ example_email)]),
       (''scope'', JArray [JString ''https://www.googleapis.com/auth/cloud-platform''])]) =
   Inr (RequestBody example_token_request)"
proof -
  have "string_body ''projects/-/serviceAccounts/sa@proj.iam.gserviceaccount.com'' =
          ''projects/-/serviceAccounts/sa@proj.iam.gserviceaccount.com''"
    by (rule string_body_plain) (simp add: html_byte_def)
  then show ?thesis
    unfolding json_Marshal_request
    by (simp add: appendString_def example_email_def example_token_request_def)
qed

lemma example_randomLower:
  "randomLower example_platform 8 (example_world\<lparr>sent := [example_token_request]\<rparr>) =
     (''abcdefgh'', example_world\<lparr>sent := [example_token_request], draws := 8\<rparr>)"
  unfolding eight
  by (simp add: rand_IntN_def example_platform_def example_world_def char_of_eq_iff
      take_bit_eq_mod)

lemma example_ADC:
  "applicationDefaultCredentials example_platform example_world = Inr ''{ }''"
proof -
  have "getGcloudConfigDir example_platform =
          Inr (filepath_Join [''/home/dev'', ''.config'', ''gcloud''])"
    by (simp add: getGcloudConfigDir_def example_platform_def del: filepath_Join.simps)
  then show ?thesis
    unfolding applicationDefaultCredentials_def
    by (simp add: example_adc_Join os_ReadFile_def Let_def example_platform_def
        example_world_def del: filepath_Join.simps)
qed

lemma example_fetch_token:
  "fetchImpersonatedAccessToken example_platform example_email example_world =
     (Inr ''impersonated-token'', example_world\<lparr>sent := [example_token_request]\<rparr>)"
proof -
  have "RequestBody example_token_request = RequestBody example_token_request" ..
  show ?thesis
    unfolding fetchImpersonatedAccessToken_def example_request_body
    by (simp add: NewRequestWithContext_def http_Do_def
      example_platform_def example_world_def example_RoundTrip_def example_token_request_def)
qed

lemma example_create:
  "createDelegatedCredsFile example_platform ''{ }'' example_email
     (example_world\<lparr>sent := [example_token_request]\<rparr>) =
     (Inr example_creds_path, example_acquired_world)"
proof -
  have j: "filepath_Join [TempDir example_platform,
             ''cloudrun-local-creds-abcdefgh.json''] = example_creds_path"
    using example_creds_Join by (simp add: example_platform_def del: filepath_Join.simps)
  have f: "write_fault example_platform example_creds_path = WriteOK"
    by (simp add: example_platform_def)
  have "createDelegatedCredsFile example_platform ''{ }'' example_email
          (example_world\<lparr>sent := [example_token_request]\<rparr>) =
        (Inr example_creds_path,
         example_world\<lparr>sent := [example_token_request], draws := 8,
           files := (files example_world)(example_creds_path \<mapsto> example_artifact)\<rparr>)"
    unfolding createDelegatedCredsFile_def example_Marshal example_randomLower
    by (simp add: j f os_WriteFile_def Let_def del: filepath_Join.simps)
  also have "example_world\<lparr>sent := [example_token_request], draws := 8,
           files := (files example_world)(example_creds_path \<mapsto> example_artifact)\<rparr> =
        example_acquired_world"
    by (simp add: example_world_def example_acquired_world_def)
  finally show ?thesis .
qed

lemma example_GetImpersonatedCredentials:
  "GetImpersonatedCredentials example_platform example_email example_world =
     (Inr example_creds, example_acquired_world)"
  by (simp add: GetImpersonatedCredentials_def example_ADC example_fetch_token example_create
      example_creds_def)

lemma example_NewResolver:
  "NewResolver example_platform example_config example_world =
     (Inr example_resolver, example_acquired_world)"
proof -
  have "ServiceAccount example_config = example_email" by (simp add: example_config_def)
  then show ?thesis
    by (simp add: NewResolver_def example_GetImpersonatedCredentials example_resolver_def)
qed

lemma example_encode: "EncodeToString ''qux'' = ''cXV4''"
  by (simp add: enc6_def encodeStd_def)

lemma full_disk_ADC:
  "applicationDefaultCredentials example_full_disk_platform example_world = Inr ''{ }''"
proof -
  have "getGcloudConfigDir example_full_disk_platform =
          Inr (filepath_Join [''/home/dev'', ''.config'', ''gcloud''])"
    by (simp add: getGcloudConfigDir_def example_full_disk_platform_def example_platform_def
        del: filepath_Join.simps)
  then show ?thesis
    unfolding applicationDefaultCredentials_def
    by (simp add: example_adc_Join os_ReadFile_def Let_def example_full_disk_platform_def
        example_platform_def example_world_def del: filepath_Join.simps)
qed

lemma full_disk_fetch_token:
  "fetchImpersonatedAccessToken example_full_disk_platform example_email example_world =
     (Inr ''impersonated-token'', example_world\<lparr>sent := [example_token_request]\<rparr>)"
  unfolding fetchImpersonatedAccessToken_def example_request_body
  by (simp add: NewRequestWithContext_def http_Do_def
      example_full_disk_platform_def example_platform_def example_world_def
      example_RoundTrip_def example_token_request_def)

lemma full_disk_randomLower:
  "randomLower example_full_disk_platform 8 (example_world\<lparr>sent := [example_token_request]\<rparr>) =
     (''abcdefgh'', example_world\<lparr>sent := [example_token_request], draws := 8\<rparr>)"
  unfolding eight
  by (simp add: rand_IntN_def example_full_disk_platform_def example_platform_def
      example_world_def char_of_eq_iff take_bit_eq_mod)

lemma full_disk_create:
  "createDelegatedCredsFile example_full_disk_platform ''{ }'' example_email
     (example_world\<lparr>sent := [example_token_request]\<rparr>) =
     (Inl (PathError ''write'' example_creds_path ENOSPC),
      example_world\<lparr>sent := [example_token_request], draws := 8,
        files := (files example_world)(example_creds_path \<mapsto> [])\<rparr>)"
proof -
  have j: "filepath_Join [TempDir example_full_disk_platform,
             ''cloudrun-local-creds-abcdefgh.json''] = example_creds_path"
    using example_creds_Join
    by (simp add: example_full_disk_platform_def example_platform_def del: filepath_Join.simps)
  have f: "write_fault example_full_disk_platform example_creds_path = WriteFails ENOSPC 0"
    by (simp add: example_full_disk_platform_def example_platform_def)
  show ?thesis
    unfolding createDelegatedCredsFile_def example_Marshal full_disk_randomLower
    by (simp add: j f os_WriteFile_def Let_def del: filepath_Join.simps)
qed

lemma full_disk_GetImpersonatedCredentials:
  "GetImpersonatedCredentials example_full_disk_platform example_email example_world =
     (Inl (wrapError
        ''create credentials file: write /tmp/cloudrun-local-creds-abcdefgh.json: no space left on device''
        (PathError ''write'' example_creds_path ENOSPC)),
      example_world\<lparr>sent := [example_token_request], draws := 8,
        files := (files example_world)(example_creds_path \<mapsto> [])\<rparr>)"
  by (simp add: GetImpersonatedCredentials_def full_disk_ADC full_disk_fetch_token
      full_disk_create Errorf_w_def example_creds_path_def)

text \<open>
  The end-to-end scenario of the specification: the descriptor is parsed, the
  credentials are acquired, the six expected entries are resolved in order, and the
  one cleanup succeeds.
\<close>

lemma example_end_to_end:
  "Parse ''Service'' (Inr example_manifest) = Inr example_config \<and>
   NewResolver example_platform example_config example_world =
     (Inr example_resolver, example_acquired_world) \<and>
   Resolve example_platform example_resolver example_acquired_world =
     (Inr example_output,
      example_acquired_world\<lparr>sent := [example_token_request, example_secret_request]\<rparr>) \<and>
   fst (Resolver_Cleanup example_platform example_resolver
     (example_acquired_world\<lparr>sent := [example_token_request, example_secret_request]\<rparr>)) = None"
proof -
  have "Resolve example_platform example_resolver example_acquired_world =
     (Inr example_output,
      example_acquired_world\<lparr>sent := [example_token_request, example_secret_request]\<rparr>)"
    by (simp add: Resolve_def metadata_vars_def NewClient_def AccessSecretVersion_def
      NewRequestWithContext_def http_Do_def impersonation_url_def Let_def
      example_defs example_acquired_world_def example_token_request_def base64_defs)
  moreover have "fst (Resolver_Cleanup example_platform example_resolver
     (example_acquired_world\<lparr>sent := [example_token_request, example_secret_request]\<rparr>)) = None"
    by (simp add: Resolver_Cleanup_def Credentials_Cleanup_def os_Remove_def
      example_resolver_def example_creds_def example_acquired_world_def example_creds_path_def
      example_adc_path_def example_platform_def)
  ultimately show ?thesis
    using example_Parse example_NewResolver by simp
qed

section \<open>The claims\<close>

text \<open>
  C1. For every resolver, the sequence returned by a successful \<open>Resolve\<close> begins with
  \<open>K_SERVICE={serviceName}\<close> if and only if the service name is non-empty, followed
  in this order by \<open>K_REVISION=local\<close>, \<open>GOOGLE_CLOUD_PROJECT={projectId}\<close> and
  \<open>GOOGLE_APPLICATION_CREDENTIALS={credentialArtifactPath}\<close>, and only then by the
  entries of the environment declarations (\<open>rest\<close>, what the loop alone produces).
\<close>

theorem Resolve_metadata_first:
  assumes "Resolve P r w = (Inr out, w')"
  shows "\<exists>cfg c rest.
           config r = Some cfg \<and> creds r = Some c \<and>
           resolve_loop P (NewClient (AccessToken c) (ProjectID cfg)) (EnvironmentVars cfg) [] w
             = (Inr rest, w') \<and>
           out = (if ServiceName cfg = [] then [] else [''K_SERVICE='' @ ServiceName cfg]) @
                 [''K_REVISION=local'',
                  ''GOOGLE_CLOUD_PROJECT='' @ ProjectID cfg,
                  ''GOOGLE_APPLICATION_CREDENTIALS='' @ CredsFile c] @ rest \<and>
           (hd out = ''K_SERVICE='' @ ServiceName cfg \<longleftrightarrow> ServiceName cfg \<noteq> [])"
proof -
  from assms obtain cfg c where r: "config r = Some cfg" "creds r = Some c"
    and loop: "resolve_loop P (NewClient (AccessToken c) (ProjectID cfg)) (EnvironmentVars cfg)
                 (metadata_vars cfg c) w = (Inr out, w')"
    by (auto simp: Resolve_def split: option.splits)
  from resolve_loop_Inr[OF loop] obtain rest where
    rest: "resolve_loop P (NewClient (AccessToken c) (ProjectID cfg)) (EnvironmentVars cfg) [] w
             = (Inr rest, w')"
    and out: "out = metadata_vars cfg c @ rest"
    by blast
  have "hd out = ''K_SERVICE='' @ ServiceName cfg \<longleftrightarrow> ServiceName cfg \<noteq> []"
    unfolding out by (simp add: metadata_vars_def)
  with r rest out show ?thesis
    by (simp add: metadata_vars_def)
qed

theorem Resolve_metadata_first_witness:
  "Resolve example_platform example_resolver example_world =
     (Inr example_output, example_world\<lparr>sent := [example_secret_request]\<rparr>) \<and>
   (\<exists>rest. example_output =
      [''K_SERVICE=svc'', ''K_REVISION=local'', ''GOOGLE_CLOUD_PROJECT=proj'',
       ''GOOGLE_APPLICATION_CREDENTIALS=/tmp/cloudrun-local-creds-abcdefgh.json''] @ rest) \<and>
   hd example_output = ''K_SERVICE=svc''"
proof -
  from Resolve_metadata_first[OF example_Resolve]
  obtain cfg c rest where cfg: "config example_resolver = Some cfg"
    and c: "creds example_resolver = Some c"
    and out: "example_output =
        (if ServiceName cfg = [] then [] else [''K_SERVICE='' @ ServiceName cfg]) @
        [''K_REVISION=local'', ''GOOGLE_CLOUD_PROJECT='' @ ProjectID cfg,
         ''GOOGLE_APPLICATION_CREDENTIALS='' @ CredsFile c] @ rest"
    and first: "hd example_output = ''K_SERVICE='' @ ServiceName cfg \<longleftrightarrow> ServiceName cfg \<noteq> []"
    by blast
  from cfg have cfg': "cfg = example_config" by (simp add: example_resolver_def)
  from c have c': "c = example_creds" by (simp add: example_resolver_def)
  from out have "example_output =
      [''K_SERVICE=svc'', ''K_REVISION=local'', ''GOOGLE_CLOUD_PROJECT=proj'',
       ''GOOGLE_APPLICATION_CREDENTIALS=/tmp/cloudrun-local-creds-abcdefgh.json''] @ rest"
    unfolding cfg' c' by (simp add: example_config_def example_creds_def example_creds_path_def)
  moreover from first have "hd example_output = ''K_SERVICE=svc''"
    unfolding cfg' by (simp add: example_config_def)
  ultimately show ?thesis using example_Resolve by blast
qed

text \<open>
  C2. When the loop has come as far as a declaration without a literal value and with
  a secret reference, and the fetch of that secret fails, \<open>Resolve\<close> returns an error
  and no list: whatever the loop had collected (\<open>outs\<close>) is dropped, nothing after
  the failed fetch is run (the world is the one the fetch left), and the message is
  \<open>access secret {name}: {cause}\<close> with the name of that declaration's secret.
\<close>

theorem Resolve_fetch_failure:
  assumes "config r = Some cfg" and "creds r = Some c"
    and "EnvironmentVars cfg = before @ envVar # after"
    and "Value envVar = []" and "SecretRef envVar = Some ref"
    and "resolve_loop P (NewClient (AccessToken c) (ProjectID cfg)) before [] w = (Inr outs, w1)"
    and "AccessSecretVersion P (NewClient (AccessToken c) (ProjectID cfg))
           (SecretRef.Name ref) (Key ref) w1 = (Inl err, w2)"
  shows "Resolve P r w =
           (Inl (Errorf_w (''access secret '' @ SecretRef.Name ref @ '': '') err), w2) \<and>
         Error (Errorf_w (''access secret '' @ SecretRef.Name ref @ '': '') err) =
           ''access secret '' @ SecretRef.Name ref @ '': '' @ Error err"
proof -
  let ?cl = "NewClient (AccessToken c) (ProjectID cfg)"
  have pre: "resolve_loop P ?cl before (metadata_vars cfg c) w =
               (Inr (metadata_vars cfg c @ outs), w1)"
    using resolve_loop_acc[of P ?cl before "metadata_vars cfg c" w] assms(6) by simp
  have "resolve_loop P ?cl (before @ envVar # after) (metadata_vars cfg c) w =
          (Inl (Errorf_w (''access secret '' @ SecretRef.Name ref @ '': '') err), w2)"
    unfolding resolve_loop_append pre using assms(4,5,7) by simp
  then show ?thesis
    using assms(1,2,3) by (simp add: Resolve_def Errorf_w_def)
qed

theorem Resolve_fetch_failure_witness:
  "Resolve example_platform
     \<lparr>config = Some example_denied_config, creds = Some example_creds\<rparr> example_world =
     (Inl (wrapError ''access secret other: expected 200 response status, received 403''
             (errorString ''expected 200 response status, received 403'')),
      example_world\<lparr>sent := [example_denied_request]\<rparr>)"
proof -
  let ?r = "\<lparr>config = Some example_denied_config, creds = Some example_creds\<rparr>"
  let ?foo = "\<lparr>Name = ''FOO'', Value = ''bar'', SecretRef = None\<rparr>"
  let ?baz = "\<lparr>Name = ''BAZ'', Value = [],
               SecretRef = Some \<lparr>SecretRef.Name = ''other'', Key = ''latest''\<rparr>\<rparr>"
  let ?later = "\<lparr>Name = ''LATER'', Value = ''never'', SecretRef = None\<rparr>"
  have 1: "config ?r = Some example_denied_config" by simp
  have 2: "creds ?r = Some example_creds" by simp
  have 3: "EnvironmentVars example_denied_config = [?foo] @ ?baz # [?later]"
    by (simp add: example_denied_config_def)
  have 4: "Value ?baz = []" by simp
  have 5: "SecretRef ?baz = Some \<lparr>SecretRef.Name = ''other'', Key = ''latest''\<rparr>" by simp
  have 6: "resolve_loop example_platform
             (NewClient (AccessToken example_creds) (ProjectID example_denied_config))
             [?foo] [] example_world = (Inr [''FOO=bar''], example_world)"
    by simp
  have 7: "AccessSecretVersion example_platform
             (NewClient (AccessToken example_creds) (ProjectID example_denied_config))
             (SecretRef.Name \<lparr>SecretRef.Name = ''other'', Key = ''latest''\<rparr>)
             (Key \<lparr>SecretRef.Name = ''other'', Key = ''latest''\<rparr>) example_world =
           (Inl (errorString ''expected 200 response status, received 403''),
            example_world\<lparr>sent := [example_denied_request]\<rparr>)"
    using example_denied
    by (simp add: example_creds_def example_denied_config_def example_config_def)
  from Resolve_fetch_failure[OF 1 2 3 4 5 6 7]
  show ?thesis by (simp add: Errorf_w_def)
qed

text \<open>
  C3, as the code has it. When the artifact file exists and the platform lets it be
  removed, the first \<open>Cleanup\<close> deletes it and succeeds. \<open>Cleanup\<close> keeps the path in
  the \<open>Credentials\<close>, so a second call runs \<open>os.Remove\<close> on the same path again: it
  changes nothing, and it returns the error of removing a file that is not there.
  Releasing credentials whose path is the empty string, or a resolver without
  credentials, is a no-op success. When the platform refuses the removal, \<open>Cleanup\<close>
  returns that error and the file stays.
\<close>

theorem Cleanup_deletes_once:
  assumes "creds r = Some c" and "CredsFile c \<noteq> []" and "files w (CredsFile c) = Some b"
    and "remove_fault P (CredsFile c) = None"
  shows "Resolver_Cleanup P r w = (None, w\<lparr>files := (files w)(CredsFile c := None)\<rparr>) \<and>
         Resolver_Cleanup P r (w\<lparr>files := (files w)(CredsFile c := None)\<rparr>) =
           (Some (PathError ''remove'' (CredsFile c) ENOENT),
            w\<lparr>files := (files w)(CredsFile c := None)\<rparr>) \<and>
         (CredsFile c0 = [] \<longrightarrow>
            Credentials_Cleanup P0 c0 w0 = (None, w0) \<and>
            Resolver_Cleanup P0 \<lparr>config = cf, creds = Some c0\<rparr> w0 = (None, w0)) \<and>
         Resolver_Cleanup P0 \<lparr>config = cf, creds = None\<rparr> w0 = (None, w0) \<and>
         (remove_fault P1 (CredsFile c) = Some e \<longrightarrow>
            Resolver_Cleanup P1 r w = (Some (PathError ''remove'' (CredsFile c) e), w))"
  using assms
  by (simp add: Resolver_Cleanup_def Credentials_Cleanup_def os_Remove_def)

theorem Cleanup_deletes_once_witness:
  "Resolver_Cleanup example_platform example_resolver example_acquired_world =
     (None, example_acquired_world\<lparr>files := (files example_acquired_world)
                                       (example_creds_path := None)\<rparr>) \<and>
   Resolver_Cleanup example_platform example_resolver
     (example_acquired_world\<lparr>files := (files example_acquired_world)
                                       (example_creds_path := None)\<rparr>) =
     (Some (PathError ''remove'' example_creds_path ENOENT),
      example_acquired_world\<lparr>files := (files example_acquired_world)
                                       (example_creds_path := None)\<rparr>) \<and>
   Credentials_Cleanup example_platform \<lparr>AccessToken = ''t'', CredsFile = []\<rparr> example_world =
     (None, example_world) \<and>
   Resolver_Cleanup (example_platform\<lparr>remove_fault := (\<lambda>path. Some EACCES)\<rparr>)
     example_resolver example_acquired_world =
     (Some (PathError ''remove'' example_creds_path EACCES), example_acquired_world)"
proof -
  have 1: "creds example_resolver = Some example_creds" by (simp add: example_resolver_def)
  have 2: "CredsFile example_creds \<noteq> []"
    by (simp add: example_creds_def example_creds_path_def)
  have 3: "files example_acquired_world (CredsFile example_creds) = Some example_artifact"
    by (simp add: example_acquired_world_def example_creds_def)
  have 4: "remove_fault example_platform (CredsFile example_creds) = None"
    by (simp add: example_platform_def)
  have 5: "CredsFile example_creds = example_creds_path" by (simp add: example_creds_def)
  have 6: "remove_fault (example_platform\<lparr>remove_fault := (\<lambda>path. Some EACCES)\<rparr>)
             (CredsFile example_creds) = Some EACCES"
    by simp
  from Cleanup_deletes_once[OF 1 2 3 4, where ?c0.0 = "\<lparr>AccessToken = ''t'', CredsFile = []\<rparr>"
      and ?w0.0 = example_world and ?P0.0 = example_platform
      and ?P1.0 = "example_platform\<lparr>remove_fault := (\<lambda>path. Some EACCES)\<rparr>"
      and e = EACCES] 6
  show ?thesis unfolding 5 by simp
qed

text \<open>
  C3 as stated fails: after the scenario's credentials have been acquired, the first
  \<open>Cleanup\<close> succeeds and deletes the artifact, and the second one returns
  \<open>remove /tmp/cloudrun-local-creds-abcdefgh.json: no such file or directory\<close>.
\<close>

theorem Cleanup_twice_counterexample:
  "fst (Resolver_Cleanup example_platform example_resolver example_acquired_world) = None \<and>
   files (snd (Resolver_Cleanup example_platform example_resolver example_acquired_world))
     example_creds_path = None \<and>
   fst (Resolver_Cleanup example_platform example_resolver
          (snd (Resolver_Cleanup example_platform example_resolver example_acquired_world))) =
     Some (PathError ''remove'' example_creds_path ENOENT)"
  by (simp add: Resolver_Cleanup_def Credentials_Cleanup_def os_Remove_def
      example_resolver_def example_creds_def example_acquired_world_def example_creds_path_def
      example_adc_path_def example_platform_def)

text \<open>
  C4. A declaration with a non-empty literal value gives exactly the line
  \<open>{name}={literal}\<close>, whether or not it also carries a secret reference, and no
  secret is fetched for it: the loop goes on in the world it had reached before the
  declaration (\<open>w1\<close>, no request added), and the loop over this declaration alone
  leaves the world as it was. \<open>parseEnvVars\<close> already drops the secret reference of
  a raw declaration that has a value.
\<close>

theorem literal_wins:
  assumes "config r = Some cfg" and "creds r = Some c"
    and "EnvironmentVars cfg = before @ envVar # after"
    and "Value envVar \<noteq> []"
    and "resolve_loop P (NewClient (AccessToken c) (ProjectID cfg)) before [] w = (Inr outs, w1)"
  shows "Resolve P r w =
           resolve_loop P (NewClient (AccessToken c) (ProjectID cfg)) after
             (metadata_vars cfg c @ outs @ [Name envVar @ ''='' @ Value envVar]) w1 \<and>
         resolve_loop P cl [envVar] result w0 =
           (Inr (result @ [Name envVar @ ''='' @ Value envVar]), w0) \<and>
         (env_value env \<noteq> [] \<longrightarrow>
            parseEnvVars [env] =
              [\<lparr>Name = env_name env, Value = env_value env, SecretRef = None\<rparr>])"
proof -
  let ?cl = "NewClient (AccessToken c) (ProjectID cfg)"
  have pre: "resolve_loop P ?cl before (metadata_vars cfg c) w =
               (Inr (metadata_vars cfg c @ outs), w1)"
    using resolve_loop_acc[of P ?cl before "metadata_vars cfg c" w] assms(5) by simp
  have "resolve_loop P ?cl (before @ envVar # after) (metadata_vars cfg c) w =
          resolve_loop P ?cl after
            (metadata_vars cfg c @ outs @ [Name envVar @ ''='' @ Value envVar]) w1"
    unfolding resolve_loop_append pre using assms(4) by simp
  then show ?thesis
    using assms(1,2,3,4) by (simp add: Resolve_def)
qed

theorem literal_wins_witness:
  "Resolve example_platform example_resolver example_world =
     resolve_loop example_platform (NewClient ''impersonated-token'' ''proj'')
       [\<lparr>Name = ''BAZ'', Value = [],
         SecretRef = Some \<lparr>SecretRef.Name = ''s'', Key = ''latest''\<rparr>\<rparr>]
       [''K_SERVICE=svc'', ''K_REVISION=local'', ''GOOGLE_CLOUD_PROJECT=proj'',
        ''GOOGLE_APPLICATION_CREDENTIALS=/tmp/cloudrun-local-creds-abcdefgh.json'', ''FOO=bar'']
       example_world \<and>
   resolve_loop example_platform (NewClient ''impersonated-token'' ''proj'')
     [\<lparr>Name = ''FOO'', Value = ''bar'',
       SecretRef = Some \<lparr>SecretRef.Name = ''s'', Key = ''latest''\<rparr>\<rparr>] [] example_world =
     (Inr [''FOO=bar''], example_world) \<and>
   parseEnvVars
     [\<lparr>env_name = ''FOO'', env_value = ''bar'', secretKeyRef_name = ''s'',
       secretKeyRef_key = ''latest''\<rparr>] =
     [\<lparr>Name = ''FOO'', Value = ''bar'', SecretRef = None\<rparr>]"
proof -
  let ?foo = "\<lparr>Name = ''FOO'', Value = ''bar'', SecretRef = None\<rparr>"
  let ?foo2 = "\<lparr>Name = ''FOO'', Value = ''bar'',
                SecretRef = Some \<lparr>SecretRef.Name = ''s'', Key = ''latest''\<rparr>\<rparr>"
  let ?baz = "\<lparr>Name = ''BAZ'', Value = [],
               SecretRef = Some \<lparr>SecretRef.Name = ''s'', Key = ''latest''\<rparr>\<rparr>"
  let ?raw = "\<lparr>env_name = ''FOO'', env_value = ''bar'', secretKeyRef_name = ''s'',
               secretKeyRef_key = ''latest''\<rparr>"
  have 1: "config example_resolver = Some example_config" by (simp add: example_resolver_def)
  have 2: "creds example_resolver = Some example_creds" by (simp add: example_resolver_def)
  have 3: "EnvironmentVars example_config = [] @ ?foo # [?baz]"
    by (simp add: example_config_def)
  have 4: "Value ?foo \<noteq> []" by simp
  have 5: "resolve_loop example_platform
             (NewClient (AccessToken example_creds) (ProjectID example_config))
             [] [] example_world = (Inr [], example_world)"
    by simp
  from literal_wins[OF 1 2 3 4 5, where env = ?raw]
  show ?thesis
    by (simp add: metadata_vars_def example_config_def example_creds_def example_creds_path_def)
qed

text \<open>
  C5. For every descriptor that \<open>Parse\<close> accepts, the identity has exactly one \<open>@\<close>
  and the project id is the first label of the domain after it: the text before the
  first \<open>.\<close> of the domain (the whole domain when it has no \<open>.\<close>), and it is not
  empty. An identity with no \<open>@\<close> or with more than one is rejected by
  \<open>extractProjectID\<close> (invalid service account format), and with it the descriptor by
  \<open>Parse\<close>, whatever its kind and its other fields.
\<close>

theorem projectID_first_label:
  "(Parse kind unmarshalled = Inr cfg \<longrightarrow>
      (\<exists>raw local domain.
         unmarshalled = Inr raw \<and> ServiceAccount cfg = ServiceAccountName raw \<and>
         ServiceAccount cfg = local @ ''@'' @ domain \<and>
         CHR ''@'' \<notin> set local \<and> CHR ''@'' \<notin> set domain \<and>
         ProjectID cfg = takeWhile (\<lambda>ch. ch \<noteq> CHR ''.'') domain \<and> ProjectID cfg \<noteq> [])) \<and>
   (count_list identity CHR ''@'' \<noteq> 1 \<longrightarrow>
      extractProjectID identity =
        Inl (errorString (''invalid service account format: '' @ identity)) \<and>
      (\<exists>err. Parse kind (Inr (raw0\<lparr>ServiceAccountName := identity\<rparr>)) = Inl err))"
proof (intro conjI impI)
  assume "Parse kind unmarshalled = Inr cfg"
  from Parse_Inr[OF this] obtain raw where raw: "unmarshalled = Inr raw"
    and m: "parseManifest raw = Inr cfg" by blast
  from parseManifest_Inr[OF m] have sa: "ServiceAccount cfg = ServiceAccountName raw"
    and p: "extractProjectID (ServiceAccountName raw) = Inr (ProjectID cfg)" by simp_all
  from extractProjectID_Inr[OF p] raw sa
  show "\<exists>raw local domain.
         unmarshalled = Inr raw \<and> ServiceAccount cfg = ServiceAccountName raw \<and>
         ServiceAccount cfg = local @ ''@'' @ domain \<and>
         CHR ''@'' \<notin> set local \<and> CHR ''@'' \<notin> set domain \<and>
         ProjectID cfg = takeWhile (\<lambda>ch. ch \<noteq> CHR ''.'') domain \<and> ProjectID cfg \<noteq> []"
    by auto
next
  assume c: "count_list identity CHR ''@'' \<noteq> 1"
  show "extractProjectID identity =
        Inl (errorString (''invalid service account format: '' @ identity))"
    by (rule extractProjectID_Inl[OF c])
  show "\<exists>err. Parse kind (Inr (raw0\<lparr>ServiceAccountName := identity\<rparr>)) = Inl err"
    using Parse_rejects[of "raw0\<lparr>ServiceAccountName := identity\<rparr>"]
      extractProjectID_Inl[OF c] by simp
qed

theorem projectID_first_label_witness:
  "Parse ''Service'' (Inr example_manifest) = Inr example_config \<and>
   ProjectID example_config = takeWhile (\<lambda>ch. ch \<noteq> CHR ''.'') ''proj.iam.gserviceaccount.com'' \<and>
   count_list ''a@b@c'' CHR ''@'' \<noteq> 1 \<and>
   extractProjectID ''a@b@c'' = Inl (errorString ''invalid service account format: a@b@c'') \<and>
   (\<exists>err. Parse ''Service'' (Inr (example_manifest\<lparr>ServiceAccountName := ''a@b@c''\<rparr>)) = Inl err) \<and>
   count_list ''nobody'' CHR ''@'' \<noteq> 1 \<and>
   extractProjectID ''nobody'' = Inl (errorString ''invalid service account format: nobody'')"
proof -
  have c1: "count_list ''a@b@c'' CHR ''@'' \<noteq> 1" by simp
  have c2: "count_list ''nobody'' CHR ''@'' \<noteq> 1" by simp
  note t1 = projectID_first_label[of "''Service''" "Inr example_manifest" example_config
      "''a@b@c''" example_manifest]
  note t2 = projectID_first_label[of "''Service''" "Inr example_manifest" example_config
      "''nobody''" example_manifest]
  from t1 example_Parse c1 have
    "extractProjectID ''a@b@c'' = Inl (errorString ''invalid service account format: a@b@c'')"
    "\<exists>err. Parse ''Service'' (Inr (example_manifest\<lparr>ServiceAccountName := ''a@b@c''\<rparr>)) = Inl err"
    by simp_all
  moreover from t2 c2 have
    "extractProjectID ''nobody'' = Inl (errorString ''invalid service account format: nobody'')"
    by simp
  moreover have "ProjectID example_config =
      takeWhile (\<lambda>ch. ch \<noteq> CHR ''.'') ''proj.iam.gserviceaccount.com''"
    by (simp add: example_config_def)
  ultimately show ?thesis using example_Parse c1 c2 by blast
qed

text \<open>
  C6. When the secret endpoint answers the request of \<open>AccessSecretVersion\<close> with
  status 200 and a body whose payload field is the standard base64 encoding of a
  non-empty byte sequence \<open>bs\<close>, the fetch returns exactly \<open>bs\<close>; when the payload
  field is the empty string, the fetch fails with \<open>no value for secret {path}\<close>
  instead of returning an empty value.
\<close>

theorem fetch_round_trip:
  assumes "url_error P (''https://secretmanager.googleapis.com/v1/projects/'' @ projectID c @
             ''/secrets/'' @ secretName @ ''/versions/'' @ version @ '':access'') = None"
    and "RoundTrip P (length (sent w))
           \<lparr>Method = ''GET'',
            URL = ''https://secretmanager.googleapis.com/v1/projects/'' @ projectID c @
                  ''/secrets/'' @ secretName @ ''/versions/'' @ version @ '':access'',
            Authorization = ''Bearer '' @ accessToken c,
            RequestBody = []\<rparr> = Inr resp"
    and "StatusCode resp = 200"
    and "DecodePayloadData P (Body resp) = Inr payload"
  shows "(bs \<noteq> [] \<and> payload = EncodeToString bs \<longrightarrow>
            fst (AccessSecretVersion P c secretName version w) = Inr bs) \<and>
         (payload = [] \<longrightarrow>
            fst (AccessSecretVersion P c secretName version w) =
              Inl (errorString (''no value for secret projects/'' @ projectID c @
                     ''/secrets/'' @ secretName @ ''/versions/'' @ version)))"
  using assms
  by (simp add: AccessSecretVersion_def NewRequestWithContext_def http_Do_def Let_def
      DecodeString_EncodeToString EncodeToString_empty_iff)

theorem fetch_round_trip_witness:
  "fst (AccessSecretVersion example_platform (NewClient ''impersonated-token'' ''proj'')
          ''s'' ''latest'' example_world) = Inr ''qux'' \<and>
   fst (AccessSecretVersion example_empty_platform (NewClient ''impersonated-token'' ''proj'')
          ''s'' ''latest'' example_world) =
     Inl (errorString ''no value for secret projects/proj/secrets/s/versions/latest'')"
proof -
  let ?c = "NewClient ''impersonated-token'' ''proj''"
  let ?req = "\<lparr>Method = ''GET'',
            URL = ''https://secretmanager.googleapis.com/v1/projects/'' @ projectID ?c @
                  ''/secrets/'' @ ''s'' @ ''/versions/'' @ ''latest'' @ '':access'',
            Authorization = ''Bearer '' @ accessToken ?c,
            RequestBody = []\<rparr>"
  have u: "url_error example_platform (''https://secretmanager.googleapis.com/v1/projects/'' @
             projectID ?c @ ''/secrets/'' @ ''s'' @ ''/versions/'' @ ''latest'' @ '':access'') = None"
    by (simp add: example_platform_def)
  have r: "RoundTrip example_platform (length (sent example_world)) ?req =
             Inr \<lparr>StatusCode = 200, Body = ''cXV4''\<rparr>"
    by (simp add: example_platform_def example_RoundTrip_def NewClient_def
        impersonation_url_def example_email_def)
  have s: "StatusCode \<lparr>StatusCode = 200, Body = ''cXV4''\<rparr> = 200" by simp
  have d: "DecodePayloadData example_platform (Body \<lparr>StatusCode = 200, Body = ''cXV4''\<rparr>) =
             Inr ''cXV4''"
    by (simp add: example_platform_def)
  have u': "url_error example_empty_platform (''https://secretmanager.googleapis.com/v1/projects/'' @
             projectID ?c @ ''/secrets/'' @ ''s'' @ ''/versions/'' @ ''latest'' @ '':access'') = None"
    by (simp add: example_empty_platform_def example_platform_def)
  have r': "RoundTrip example_empty_platform (length (sent example_world)) ?req =
             Inr \<lparr>StatusCode = 200, Body = []\<rparr>"
    by (simp add: example_empty_platform_def)
  have s': "StatusCode \<lparr>StatusCode = 200, Body = []\<rparr> = 200" by simp
  have d': "DecodePayloadData example_empty_platform (Body \<lparr>StatusCode = 200, Body = []\<rparr>) =
             Inr []"
    by (simp add: example_empty_platform_def example_platform_def)
  from fetch_round_trip[OF u r s d, of "''qux''"] example_encode
  have "fst (AccessSecretVersion example_platform ?c ''s'' ''latest'' example_world) = Inr ''qux''"
    by simp
  moreover from fetch_round_trip[OF u' r' s' d']
  have "fst (AccessSecretVersion example_empty_platform ?c ''s'' ''latest'' example_world) =
     Inl (errorString ''no value for secret projects/proj/secrets/s/versions/latest'')"
    by (simp add: NewClient_def)
  ultimately show ?thesis by (rule conjI)
qed

text \<open>
  C7. A raw declaration with no value and without both a secret name and a version
  label is skipped without a trace: resolving the configuration with it gives the very
  result (list or error, and world) of resolving the configuration without it, and the
  loop over it alone returns the list unchanged and succeeds.
\<close>

theorem incomplete_declaration_skipped:
  assumes "env_value env = []"
    and "secretKeyRef_name env = [] \<or> secretKeyRef_key env = []"
  shows "Resolve P \<lparr>config = Some (cfg\<lparr>EnvironmentVars := parseEnvVars (before @ env # after)\<rparr>),
                    creds = cr\<rparr> w =
         Resolve P \<lparr>config = Some (cfg\<lparr>EnvironmentVars := parseEnvVars (before @ after)\<rparr>),
                    creds = cr\<rparr> w \<and>
         resolve_loop P cl (parseEnvVars [env]) result w = (Inr result, w)"
proof -
  have skip: "resolve_loop P cl' (parseEnvVars (env # rest)) acc w' =
              resolve_loop P cl' (parseEnvVars rest) acc w'" for cl' rest acc w'
    using assms by auto
  have "resolve_loop P cl' (parseEnvVars (before @ env # after)) acc w' =
        resolve_loop P cl' (parseEnvVars (before @ after)) acc w'" for cl' acc w'
    by (simp only: parseEnvVars_append resolve_loop_append skip)
  then have "Resolve P \<lparr>config = Some (cfg\<lparr>EnvironmentVars := parseEnvVars (before @ env # after)\<rparr>),
                    creds = cr\<rparr> w =
         Resolve P \<lparr>config = Some (cfg\<lparr>EnvironmentVars := parseEnvVars (before @ after)\<rparr>),
                    creds = cr\<rparr> w"
    by (simp add: Resolve_def metadata_vars_def split: option.split)
  moreover have "resolve_loop P cl (parseEnvVars [env]) result w = (Inr result, w)"
    using assms by auto
  ultimately show ?thesis by (rule conjI)
qed

theorem incomplete_declaration_skipped_witness:
  "Resolve example_platform
     \<lparr>config = Some (example_config\<lparr>EnvironmentVars :=
         parseEnvVars (take 1 (Env (hd (Containers example_manifest))) @ example_incomplete_env #
                       drop 1 (Env (hd (Containers example_manifest))))\<rparr>),
      creds = Some example_creds\<rparr> example_world =
   (Inr example_output, example_world\<lparr>sent := [example_secret_request]\<rparr>)"
proof -
  have 1: "env_value example_incomplete_env = []"
    by (simp add: example_incomplete_env_def)
  have 2: "secretKeyRef_name example_incomplete_env = [] \<or>
           secretKeyRef_key example_incomplete_env = []"
    by (simp add: example_incomplete_env_def)
  have same: "example_config\<lparr>EnvironmentVars :=
         parseEnvVars (take 1 (Env (hd (Containers example_manifest))) @
                       drop 1 (Env (hd (Containers example_manifest))))\<rparr> = example_config"
    by (simp add: example_config_def example_manifest_def)
  from incomplete_declaration_skipped[OF 1 2, where P = example_platform
      and cfg = example_config
      and before = "take 1 (Env (hd (Containers example_manifest)))"
      and after = "drop 1 (Env (hd (Containers example_manifest)))"
      and cr = "Some example_creds" and w = example_world]
  show ?thesis
    unfolding same using example_Resolve by (simp add: example_resolver_def)
qed




text \<open>
  C9 does not hold of the code. \<open>os.WriteFile\<close> creates the artifact file before it
  writes to it, and \<open>createDelegatedCredsFile\<close> returns the error of a failed write
  without removing the file. On a full disk \<open>GetImpersonatedCredentials\<close> returns the
  error \<open>create credentials file: write /tmp/cloudrun-local-creds-abcdefgh.json: no space
  left on device\<close> and no path, and a file that was not there before the call is on disk
  at the artifact path. On every other failure path the files are as they were
  (\<open>GetImpersonatedCredentials_Inl\<close>).
\<close>

theorem failed_write_leaves_artifact:
  "fst (GetImpersonatedCredentials example_full_disk_platform example_email example_world) =
     Inl (wrapError
        ''create credentials file: write /tmp/cloudrun-local-creds-abcdefgh.json: no space left on device''
        (PathError ''write'' example_creds_path ENOSPC)) \<and>
   files example_world example_creds_path = None \<and>
   files (snd (GetImpersonatedCredentials example_full_disk_platform example_email example_world))
     example_creds_path = Some []"
  unfolding full_disk_GetImpersonatedCredentials
  by (simp add: example_world_def example_creds_path_def example_adc_path_def)

text \<open>
  C10. When the token-exchange endpoint answers with status 200 and a body whose
  \<open>accessToken\<close> decodes to the empty string (the field is missing or empty),
  \<open>fetchImpersonatedAccessToken\<close> returns the empty token without an error, and
  \<open>GetImpersonatedCredentials\<close> goes on to write the artifact and returns credentials
  whose \<open>AccessToken\<close> is empty. Only the caller's own token is checked: when it is
  empty the fetch fails with \<open>got empty access token\<close> before any request.
\<close>

theorem empty_impersonated_token_accepted:
  assumes "applicationDefaultCredentials P w = Inr standing"
    and "FindDefaultCredentials P = Inr (Inr callerToken)" and "callerToken \<noteq> []"
    and "json_Marshal (JObject
           [(''delegates'', JArray [JString (''projects/-/serviceAccounts/'' @ target)]),
            (''scope'', JArray [JString ''https://www.googleapis.com/auth/cloud-platform''])])
         = Inr reqBody"
    and "url_error P (impersonation_url target) = None"
    and "RoundTrip P (length (sent w))
           \<lparr>Method = ''POST'', URL = impersonation_url target,
            Authorization = ''Bearer '' @ callerToken, RequestBody = reqBody\<rparr> = Inr resp"
    and "StatusCode resp = 200"
    and "DecodeAccessToken P (Body resp) = Inr []"
    and "createDelegatedCredsFile P standing target
           (w\<lparr>sent := sent w @
              [\<lparr>Method = ''POST'', URL = impersonation_url target,
                Authorization = ''Bearer '' @ callerToken, RequestBody = reqBody\<rparr>]\<rparr>)
         = (Inr path, w')"
  shows "GetImpersonatedCredentials P target w = (Inr \<lparr>AccessToken = [], CredsFile = path\<rparr>, w') \<and>
         (FindDefaultCredentials P0 = Inr (Inr []) \<longrightarrow>
            fetchImpersonatedAccessToken P0 target w0 =
              (Inl (errorString ''got empty access token''), w0))"
proof -
  have "fetchImpersonatedAccessToken P target w =
          (Inr [], w\<lparr>sent := sent w @
              [\<lparr>Method = ''POST'', URL = impersonation_url target,
                Authorization = ''Bearer '' @ callerToken, RequestBody = reqBody\<rparr>]\<rparr>)"
    using assms(2-8)
    by (simp add: fetchImpersonatedAccessToken_def NewRequestWithContext_def http_Do_def)
  then have "GetImpersonatedCredentials P target w =
               (Inr \<lparr>AccessToken = [], CredsFile = path\<rparr>, w')"
    using assms(1,9) by (simp add: GetImpersonatedCredentials_def)
  moreover have "FindDefaultCredentials P0 = Inr (Inr []) \<longrightarrow>
            fetchImpersonatedAccessToken P0 target w0 =
              (Inl (errorString ''got empty access token''), w0)"
    by (simp add: fetchImpersonatedAccessToken_def)
  ultimately show ?thesis by (rule conjI)
qed

theorem empty_impersonated_token_accepted_witness:
  "GetImpersonatedCredentials example_empty_platform example_email example_world =
     (Inr \<lparr>AccessToken = [], CredsFile = example_creds_path\<rparr>, example_acquired_world) \<and>
   fetchImpersonatedAccessToken (example_platform\<lparr>FindDefaultCredentials := Inr (Inr [])\<rparr>)
     example_email example_world = (Inl (errorString ''got empty access token''), example_world)"
proof -
  let ?P = example_empty_platform
  have "getGcloudConfigDir ?P = Inr (filepath_Join [''/home/dev'', ''.config'', ''gcloud''])"
    by (simp add: getGcloudConfigDir_def example_empty_platform_def example_platform_def
        del: filepath_Join.simps)
  then have 1: "applicationDefaultCredentials ?P example_world = Inr ''{ }''"
    unfolding applicationDefaultCredentials_def
    by (simp add: example_adc_Join os_ReadFile_def Let_def example_empty_platform_def
        example_platform_def example_world_def del: filepath_Join.simps)
  have 2: "FindDefaultCredentials ?P = Inr (Inr ''caller-token'')"
    by (simp add: example_empty_platform_def example_platform_def)
  have 3: "''caller-token'' \<noteq> []" by simp
  have 4: "json_Marshal (JObject
           [(''delegates'', JArray [JString (''projects/-/serviceAccounts/'' @ example_email)]),
            (''scope'', JArray [JString ''https://www.googleapis.com/auth/cloud-platform''])])
         = Inr (RequestBody example_token_request)"
    by (rule example_request_body)
  have 5: "url_error ?P (impersonation_url example_email) = None"
    by (simp add: example_empty_platform_def example_platform_def)
  have 6: "RoundTrip ?P (length (sent example_world))
           \<lparr>Method = ''POST'', URL = impersonation_url example_email,
            Authorization = ''Bearer '' @ ''caller-token'',
            RequestBody = RequestBody example_token_request\<rparr> = Inr \<lparr>StatusCode = 200, Body = []\<rparr>"
    by (simp add: example_empty_platform_def)
  have 7: "StatusCode \<lparr>StatusCode = 200, Body = []\<rparr> = 200" by simp
  have 8: "DecodeAccessToken ?P (Body \<lparr>StatusCode = 200, Body = []\<rparr>) = Inr []"
    by (simp add: example_empty_platform_def example_platform_def)
  have req: "\<lparr>Method = ''POST'', URL = impersonation_url example_email,
                Authorization = ''Bearer '' @ ''caller-token'',
                RequestBody = RequestBody example_token_request\<rparr> = example_token_request"
    by (simp add: example_token_request_def)
  have w: "example_world\<lparr>sent := sent example_world @ [example_token_request]\<rparr> =
           example_world\<lparr>sent := [example_token_request]\<rparr>"
    by (simp add: example_world_def)
  have rl: "randomLower ?P 8 (example_world\<lparr>sent := [example_token_request]\<rparr>) =
     (''abcdefgh'', example_world\<lparr>sent := [example_token_request], draws := 8\<rparr>)"
    unfolding eight
    by (simp add: rand_IntN_def example_empty_platform_def example_platform_def
        example_world_def char_of_eq_iff take_bit_eq_mod)
  have j: "filepath_Join [TempDir ?P, ''cloudrun-local-creds-abcdefgh.json''] =
             example_creds_path"
    using example_creds_Join
    by (simp add: example_empty_platform_def example_platform_def del: filepath_Join.simps)
  have f: "write_fault ?P example_creds_path = WriteOK"
    by (simp add: example_empty_platform_def example_platform_def)
  have "createDelegatedCredsFile ?P ''{ }'' example_email
          (example_world\<lparr>sent := [example_token_request]\<rparr>) =
        (Inr example_creds_path,
         example_world\<lparr>sent := [example_token_request], draws := 8,
           files := (files example_world)(example_creds_path \<mapsto> example_artifact)\<rparr>)"
    unfolding createDelegatedCredsFile_def example_Marshal rl
    by (simp add: j f os_WriteFile_def Let_def del: filepath_Join.simps)
  also have "example_world\<lparr>sent := [example_token_request], draws := 8,
           files := (files example_world)(example_creds_path \<mapsto> example_artifact)\<rparr> =
        example_acquired_world"
    by (simp add: example_world_def example_acquired_world_def)
  finally have 9: "createDelegatedCredsFile ?P ''{ }'' example_email
           (example_world\<lparr>sent := sent example_world @
              [\<lparr>Method = ''POST'', URL = impersonation_url example_email,
                Authorization = ''Bearer '' @ ''caller-token'',
                RequestBody = RequestBody example_token_request\<rparr>]\<rparr>)
         = (Inr example_creds_path, example_acquired_world)"
    unfolding req w .
  have 0: "FindDefaultCredentials (example_platform\<lparr>FindDefaultCredentials := Inr (Inr [])\<rparr>) =
             Inr (Inr [])"
    by simp
  from empty_impersonated_token_accepted[OF 1 2 3 4 5 6 7 8 9,
      where ?P0.0 = "example_platform\<lparr>FindDefaultCredentials := Inr (Inr [])\<rparr>"
        and ?w0.0 = example_world] 0
  show ?thesis by simp
qed

end
